theory Spec2Isabelle
  imports Main "HOL-Library.Multiset"
begin

section \<open>Values, exceptions and the external collaborators\<close>

text \<open>
  Tasks, the shared context and agent arguments are Python dictionaries decoded from
  JSON. Their values are modelled by \<open>pyval\<close>; a dictionary with string keys is a
  map. Strings are character lists.
\<close>

datatype pyval =
    PNone
  | PBool bool
  | PInt int
  | PStr string
  | PList "pyval list"
  | PDict "(string \<times> pyval) list"

type_synonym pydict = "string \<rightharpoonup> pyval"

text \<open>
  The exceptions the modelled code can raise. All of them are subclasses of Python's
  \<open>Exception\<close>. \<open>ProviderError\<close> stands for whatever exception an external
  collaborator (the provider, a prompt builder's \<open>str.join\<close>) raises, with its message.
\<close>

datatype exn =
    KeyError string
  | IndexError string
  | RuntimeError string
  | TypeError string
  | AttributeError string
  | ToolExecutionError string
  | ProviderError string

text \<open>The type name Python prints in the message of a \<open>TypeError\<close> or an \<open>AttributeError\<close>.\<close>

definition type_name :: "pyval \<Rightarrow> string" where
  "type_name v =
     (case v of
        PNone \<Rightarrow> ''NoneType'' | PBool b \<Rightarrow> ''bool'' | PInt i \<Rightarrow> ''int''
      | PStr s \<Rightarrow> ''str'' | PList xs \<Rightarrow> ''list'' | PDict kvs \<Rightarrow> ''dict'')"

text \<open>\<open>str(e)\<close>: a \<open>KeyError\<close> prints the repr of the missing key, the others their message.\<close>

fun exn_str :: "exn \<Rightarrow> string" where
  "exn_str (KeyError k) = [CHR 0x27] @ k @ [CHR 0x27]"
| "exn_str (IndexError m) = m"
| "exn_str (RuntimeError m) = m"
| "exn_str (TypeError m) = m"
| "exn_str (AttributeError m) = m"
| "exn_str (ToolExecutionError m) = m"
| "exn_str (ProviderError m) = m"

text \<open>Decimal rendering of the integers that f-strings interpolate.\<close>

fun string_of_nat :: "nat \<Rightarrow> string" where
  "string_of_nat n =
     (if n < 10 then [''0123456789'' ! n]
      else string_of_nat (n div 10) @ [''0123456789'' ! (n mod 10)])"

declare string_of_nat.simps [simp del]

definition string_of_int :: "int \<Rightarrow> string" where
  "string_of_int i = (if i < 0 then ''-'' @ string_of_nat (nat (- i)) else string_of_nat (nat i))"

text \<open>
  \<open>datetime.datetime.now()\<close> as a record, and \<open>strftime("%Y-%m-%d %H:%M:%S")\<close>:
  the year as it is (four digits from year 1000 on), the other fields padded to two digits.
\<close>

record datetime =
  year :: nat
  month :: nat
  day :: nat
  hour :: nat
  minute :: nat
  second :: nat

definition pad2 :: "nat \<Rightarrow> string" where
  "pad2 n = (if n < 10 then ''0'' @ string_of_nat n else string_of_nat n)"

definition strftime :: "datetime \<Rightarrow> string" where
  "strftime d =
     string_of_nat (year d) @ ''-'' @ pad2 (month d) @ ''-'' @ pad2 (day d) @ '' '' @
     pad2 (hour d) @ '':'' @ pad2 (minute d) @ '':'' @ pad2 (second d)"

text \<open>
  A provider's \<open>generate_response(messages, model, thinking_mode)\<close>: the single user
  message's content, the model and the thinking mode go in; the response's content
  comes out, or an exception.
\<close>

type_synonym provider = "string \<Rightarrow> pyval \<Rightarrow> pyval \<Rightarrow> exn + string"

text \<open>
  What the modelled code takes from outside the repository's sources:
  \<^item> \<open>get_provider_for_model\<close>: the provider registry (\<open>None\<close> when no provider serves
    the model);
  \<^item> \<open>build_context\<close>: the prompt templates \<open>_build_*_context\<close>, by template name and
    argument list. They are fixed text with the arguments interpolated; no claim depends
    on their wording, so every theorem holds for any template. A template can raise
    (\<open>', '.join(files)\<close> on a non-string element);
  \<^item> \<open>py_repr\<close>: Python's rendering of a list or dictionary inside an f-string;
  \<^item> \<open>py_upper\<close>: \<open>str.upper\<close>;
  \<^item> \<open>now\<close>: the clock that \<open>datetime.datetime.now()\<close> reads;
  \<^item> \<open>completion_order\<close>: the order in which the event loop completes the tasks
    handed to \<open>asyncio.gather\<close>, as a list of task indices.
\<close>

record env =
  get_provider_for_model :: "pyval \<Rightarrow> provider option"
  build_context :: "string \<Rightarrow> pyval list \<Rightarrow> exn + string"
  py_repr :: "pyval \<Rightarrow> string"
  py_upper :: "string \<Rightarrow> string"
  now :: datetime
  completion_order :: "nat list"

text \<open>\<open>str(v)\<close>, as an f-string interpolates a value.\<close>

definition py_str :: "env \<Rightarrow> pyval \<Rightarrow> string" where
  "py_str env v =
     (case v of
        PNone \<Rightarrow> ''None''
      | PBool b \<Rightarrow> (if b then ''True'' else ''False'')
      | PInt i \<Rightarrow> string_of_int i
      | PStr s \<Rightarrow> s
      | PList xs \<Rightarrow> py_repr env v
      | PDict kvs \<Rightarrow> py_repr env v)"

section \<open>Model selection\<close>

text \<open>\<open>model_map\<close> of \<open>_select_model\<close>, and \<open>model_map.get(agent_type, "gemini-flash")\<close>.\<close>

definition model_map :: "string \<rightharpoonup> string" where
  "model_map =
     [''architecture'' \<mapsto> ''gemini-pro'',
      ''implementation'' \<mapsto> ''gemini-flash'',
      ''optimization'' \<mapsto> ''ollama'',
      ''content'' \<mapsto> ''claude-haiku'',
      ''procedural_puzzle'' \<mapsto> ''gemini-pro'',
      ''dynamic_difficulty'' \<mapsto> ''gemini-pro'',
      ''narrative'' \<mapsto> ''claude-haiku'',
      ''asset_optimization'' \<mapsto> ''ollama'']"

definition base_model :: "string \<Rightarrow> string" where
  "base_model agent_type =
     (case model_map agent_type of None \<Rightarrow> ''gemini-flash'' | Some m \<Rightarrow> m)"

definition select_model :: "string \<Rightarrow> string \<Rightarrow> string" where
  "select_model agent_type strategy =
     (if strategy = ''cost_optimized'' then
        (if base_model agent_type = ''gemini-pro'' then ''gemini-flash''
         else if base_model agent_type = ''claude-haiku'' then ''gemini-flash''
         else base_model agent_type)
      else if strategy = ''performance_optimized'' then
        (if base_model agent_type = ''gemini-flash'' then ''gemini-pro''
         else if base_model agent_type = ''ollama'' then ''gemini-pro''
         else base_model agent_type)
      else if strategy = ''balanced'' then
        (if base_model agent_type = ''gemini-pro'' then ''gemini-flash''
         else if base_model agent_type = ''ollama'' then ''gemini-flash''
         else base_model agent_type)
      else base_model agent_type)"

section \<open>Report rendering\<close>

text \<open>\<open>_get_timestamp\<close> reads the clock and formats it.\<close>

definition get_timestamp :: "env \<Rightarrow> string" where
  "get_timestamp env = strftime (now env)"

text \<open>
  The loop \<open>for i, (step_name, step_result) in enumerate(steps, 1)\<close> of
  \<open>_generate_workflow_report\<close>, with the report built so far as accumulator.
\<close>

fun report_steps :: "env \<Rightarrow> nat \<Rightarrow> (pyval \<times> string) list \<Rightarrow> string \<Rightarrow> string" where
  "report_steps env i [] report = report"
| "report_steps env i ((step_name, step_result) # rest) report =
     report_steps env (Suc i) rest
       (report @ ''## Step '' @ string_of_nat i @ '': '' @ py_str env step_name @ ''\<newline>\<newline>''
          @ step_result @ ''\<newline>\<newline>''
          @ ''---\<newline>\<newline>'')"

definition generate_workflow_report :: "env \<Rightarrow> string \<Rightarrow> (pyval \<times> string) list \<Rightarrow> string" where
  "generate_workflow_report env workflow_name steps =
     report_steps env 1 steps
       (''# '' @ workflow_name @ '' Workflow Report\<newline>\<newline>''
          @ ''**Generated:** '' @ get_timestamp env @ ''\<newline>''
          @ ''**Total Steps:** '' @ string_of_nat (length steps) @ ''\<newline>\<newline>'')
     @ ''## Workflow Summary\<newline>\<newline>''
     @ ''- **Workflow Type:** '' @ workflow_name @ ''\<newline>''
     @ ''- **Steps Completed:** '' @ string_of_nat (length steps) @ ''\<newline>''
     @ ''- **Status:** Completed Successfully\<newline>\<newline>''
     @ ''## Recommendations\<newline>\<newline>''
     @ ''1. Review each step's output for quality and completeness\<newline>''
     @ ''2. Implement recommendations in order of priority\<newline>''
     @ ''3. Test changes thoroughly before deployment\<newline>''
     @ ''4. Monitor performance and user feedback\<newline>\<newline>''"

section \<open>State, failure and the monad of a run\<close>

text \<open>
  The state a run can touch: the shared context dictionary, which every workflow method
  receives by reference, and the log of the provider round-trips made so far (model,
  prompt, thinking mode), in the order they were made.
\<close>

record run_state =
  shared_context :: pydict
  provider_calls :: "(pyval \<times> string \<times> pyval) list"

text \<open>
  A coroutine of the source is a state transformer that returns either the exception it
  raised or its result, together with the state it leaves behind.
\<close>

type_synonym 'a run = "run_state \<Rightarrow> (exn + 'a) \<times> run_state"

definition returnM :: "'a \<Rightarrow> 'a run" where
  "returnM x = (\<lambda>s. (Inr x, s))"

definition raiseM :: "exn \<Rightarrow> 'a run" where
  "raiseM e = (\<lambda>s. (Inl e, s))"

definition liftM :: "exn + 'a \<Rightarrow> 'a run" where
  "liftM r = (\<lambda>s. (r, s))"

definition bindM :: "'a run \<Rightarrow> ('a \<Rightarrow> 'b run) \<Rightarrow> 'b run" where
  "bindM m f = (\<lambda>s. case m s of (Inl e, s') \<Rightarrow> (Inl e, s') | (Inr x, s') \<Rightarrow> f x s')"

text \<open>\<open>d[k]\<close> and \<open>d.get(k, default)\<close> on a dictionary.\<close>

definition dict_index :: "pydict \<Rightarrow> string \<Rightarrow> exn + pyval" where
  "dict_index d k = (case d k of None \<Rightarrow> Inl (KeyError k) | Some v \<Rightarrow> Inr v)"

definition dict_get :: "pydict \<Rightarrow> string \<Rightarrow> pyval \<Rightarrow> pyval" where
  "dict_get d k dflt = (case d k of None \<Rightarrow> dflt | Some v \<Rightarrow> v)"

text \<open>\<open>context.get(k, default)\<close> and \<open>k in context\<close> on the shared context.\<close>

definition context_get :: "string \<Rightarrow> pyval \<Rightarrow> pyval run" where
  "context_get k dflt = (\<lambda>s. (Inr (dict_get (shared_context s) k dflt), s))"

definition context_has :: "string \<Rightarrow> bool run" where
  "context_has k = (\<lambda>s. (Inr (shared_context s k \<noteq> None), s))"

section \<open>Agents\<close>

text \<open>
  \<open>_execute_with_model\<close>: the whole body is inside \<open>try ... except Exception\<close>, so
  both the missing provider and a provider failure come out as a
  \<open>ToolExecutionError\<close>. A round-trip is logged when the provider is called.
\<close>

definition execute_with_model :: "env \<Rightarrow> pyval \<Rightarrow> string \<Rightarrow> pyval \<Rightarrow> string run" where
  "execute_with_model env model context thinking_mode =
     (\<lambda>s. case get_provider_for_model env model of
        None \<Rightarrow>
          (Inl (ToolExecutionError (''Failed to execute with model '' @ py_str env model @ '': ''
                  @ exn_str (ToolExecutionError (''Model '' @ py_str env model @ '' not available'')))), s)
      | Some provider \<Rightarrow>
          (case provider context model thinking_mode of
             Inl e \<Rightarrow>
               (Inl (ToolExecutionError (''Failed to execute with model '' @ py_str env model @ '': ''
                       @ exn_str e)),
                s\<lparr>provider_calls := provider_calls s @ [(model, context, thinking_mode)]\<rparr>)
           | Inr content \<Rightarrow>
               (Inr content,
                s\<lparr>provider_calls := provider_calls s @ [(model, context, thinking_mode)]\<rparr>)))"

text \<open>An agent returns \<open>[TextContent(type="text", text=result)]\<close>.\<close>

datatype TextContent = TextContent (text_of: string)

text \<open>
  \<open>_analyze_consensus\<close>: one heading and the raw text per collected response, then
  the fixed synthesis section. \<open>response['model'].upper()\<close> needs a string.
\<close>

fun analyze_responses :: "env \<Rightarrow> (pyval \<times> string) list \<Rightarrow> string \<Rightarrow> exn + string" where
  "analyze_responses env [] analysis = Inr analysis"
| "analyze_responses env ((model, response) # rest) analysis =
     (case model of
        PStr m \<Rightarrow>
          analyze_responses env rest
            (analysis @ ''### '' @ py_upper env m @ '' Analysis:\<newline>'' @ response @ ''\<newline>\<newline>'')
      | _ \<Rightarrow>
          Inl (AttributeError
                 ([CHR 0x27] @ type_name model @ [CHR 0x27] @ '' object has no attribute ''
                    @ [CHR 0x27] @ ''upper'' @ [CHR 0x27])))"

definition analyze_consensus :: "env \<Rightarrow> (pyval \<times> string) list \<Rightarrow> exn + string" where
  "analyze_consensus env responses =
     (case analyze_responses env responses ''## CONSENSUS ANALYSIS\<newline>\<newline>'' of
        Inl e \<Rightarrow> Inl e
      | Inr analysis \<Rightarrow>
          Inr (analysis
            @ ''## SYNTHESIS AND RECOMMENDATIONS\<newline>\<newline>''
            @ ''Based on the multiple model analyses, here are the key consensus points:\<newline>\<newline>''
            @ ''1. **Common Recommendations**\<newline>''
            @ ''2. **Areas of Agreement**\<newline>''
            @ ''3. **Divergent Opinions**\<newline>''
            @ ''4. **Final Recommendations**\<newline>\<newline>''))"

text \<open>
  The loop \<open>for model in models\<close> of \<open>_execute_consensus_workflow\<close>: a model with no
  provider is passed over; for a model with a provider the consensus prompt is built
  and the provider called, and an exception of either leaves the loop.
\<close>

fun collect_responses ::
  "env \<Rightarrow> pyval \<Rightarrow> pyval \<Rightarrow> pyval \<Rightarrow> pyval \<Rightarrow> pyval list \<Rightarrow> (pyval \<times> string) list
     \<Rightarrow> (pyval \<times> string) list run" where
  "collect_responses env prompt files models thinking_mode [] responses = returnM responses"
| "collect_responses env prompt files models thinking_mode (model # rest) responses =
     (case get_provider_for_model env model of
        None \<Rightarrow> collect_responses env prompt files models thinking_mode rest responses
      | Some provider \<Rightarrow>
          bindM (liftM (build_context env ''consensus'' [prompt, files, models])) (\<lambda>context.
          bindM (\<lambda>s. (provider context model thinking_mode,
                      s\<lparr>provider_calls := provider_calls s @ [(model, context, thinking_mode)]\<rparr>))
            (\<lambda>content.
          collect_responses env prompt files models thinking_mode rest
            (responses @ [(model, content)]))))"

text \<open>Iterating over a value: a list gives its elements, a string its characters, a
  dictionary its keys; anything else is not iterable.\<close>

definition py_iter :: "pyval \<Rightarrow> exn + pyval list" where
  "py_iter v =
     (case v of
        PList xs \<Rightarrow> Inr xs
      | PStr s \<Rightarrow> Inr (map (\<lambda>c. PStr [c]) s)
      | PDict kvs \<Rightarrow> Inr (map (\<lambda>kv. PStr (fst kv)) kvs)
      | _ \<Rightarrow>
          Inl (TypeError ([CHR 0x27] @ type_name v @ [CHR 0x27] @ '' object is not iterable'')))"

text \<open>
  \<open>_execute_consensus_workflow\<close>: everything is inside one \<open>try\<close>; any exception
  becomes \<open>ToolExecutionError("Consensus workflow failed: ...")\<close>.
\<close>

definition execute_consensus_workflow ::
  "env \<Rightarrow> pyval \<Rightarrow> pyval \<Rightarrow> pyval \<Rightarrow> pyval \<Rightarrow> string run" where
  "execute_consensus_workflow env prompt files models thinking_mode =
     (\<lambda>s. case bindM (liftM (py_iter models)) (\<lambda>ms.
                 bindM (collect_responses env prompt files models thinking_mode ms []) (\<lambda>responses.
                 liftM (analyze_consensus env responses))) s of
        (Inl e, s') \<Rightarrow> (Inl (ToolExecutionError (''Consensus workflow failed: '' @ exn_str e)), s')
      | (Inr consensus_analysis, s') \<Rightarrow> (Inr consensus_analysis, s'))"

text \<open>\<open>result[0].text\<close> on the list an agent returned.\<close>

definition first_text :: "TextContent list \<Rightarrow> exn + string" where
  "first_text result =
     (case result of [] \<Rightarrow> Inl (IndexError ''list index out of range'') | r # _ \<Rightarrow> Inr (text_of r))"

text \<open>
  The \<open>execute\<close> methods of the nine agent classes. Each reads its arguments
  (\<open>arguments[k]\<close> raises \<open>KeyError\<close>), builds its prompt and makes one model call.
  The last four ignore a \<open>model\<close> argument and use the class's own model.
\<close>

definition ArchitectureAgent_execute :: "env \<Rightarrow> pydict \<Rightarrow> TextContent list run" where
  "ArchitectureAgent_execute env arguments =
     bindM (liftM (dict_index arguments ''prompt'')) (\<lambda>prompt.
     bindM (liftM (build_context env ''architecture''
                     [prompt, dict_get arguments ''files'' (PList [])])) (\<lambda>context.
     bindM (execute_with_model env (dict_get arguments ''model'' (PStr ''gemini-pro'')) context
              (dict_get arguments ''thinking_mode'' (PStr ''high''))) (\<lambda>result.
     returnM [TextContent result])))"

definition ImplementationAgent_execute :: "env \<Rightarrow> pydict \<Rightarrow> TextContent list run" where
  "ImplementationAgent_execute env arguments =
     bindM (liftM (dict_index arguments ''prompt'')) (\<lambda>prompt.
     bindM (liftM (build_context env ''implementation''
                     [prompt, dict_get arguments ''files'' (PList [])])) (\<lambda>context.
     bindM (execute_with_model env (dict_get arguments ''model'' (PStr ''gemini-flash'')) context
              (dict_get arguments ''thinking_mode'' (PStr ''medium''))) (\<lambda>result.
     returnM [TextContent result])))"

definition OptimizationAgent_execute :: "env \<Rightarrow> pydict \<Rightarrow> TextContent list run" where
  "OptimizationAgent_execute env arguments =
     bindM (liftM (dict_index arguments ''prompt'')) (\<lambda>prompt.
     bindM (liftM (build_context env ''optimization''
                     [prompt, dict_get arguments ''files'' (PList [])])) (\<lambda>context.
     bindM (execute_with_model env (dict_get arguments ''model'' (PStr ''ollama'')) context
              (dict_get arguments ''thinking_mode'' (PStr ''medium''))) (\<lambda>result.
     returnM [TextContent result])))"

definition ContentAgent_execute :: "env \<Rightarrow> pydict \<Rightarrow> TextContent list run" where
  "ContentAgent_execute env arguments =
     bindM (liftM (dict_index arguments ''prompt'')) (\<lambda>prompt.
     bindM (liftM (build_context env ''content''
                     [prompt, dict_get arguments ''files'' (PList [])])) (\<lambda>context.
     bindM (execute_with_model env (dict_get arguments ''model'' (PStr ''claude-haiku'')) context
              (dict_get arguments ''thinking_mode'' (PStr ''medium''))) (\<lambda>result.
     returnM [TextContent result])))"

definition ConsensusAgent_execute :: "env \<Rightarrow> pydict \<Rightarrow> TextContent list run" where
  "ConsensusAgent_execute env arguments =
     bindM (liftM (dict_index arguments ''prompt'')) (\<lambda>prompt.
     bindM (execute_consensus_workflow env prompt
              (dict_get arguments ''files'' (PList []))
              (dict_get arguments ''models''
                 (PList [PStr ''gemini-pro'', PStr ''gpt-5'', PStr ''claude-haiku'']))
              (dict_get arguments ''thinking_mode'' (PStr ''high''))) (\<lambda>result.
     returnM [TextContent result]))"

definition ProceduralPuzzleAgent_execute :: "env \<Rightarrow> pydict \<Rightarrow> TextContent list run" where
  "ProceduralPuzzleAgent_execute env arguments =
     bindM (liftM (dict_index arguments ''prompt'')) (\<lambda>prompt.
     bindM (liftM (build_context env ''puzzle_generation''
                     [prompt,
                      dict_get arguments ''theme'' (PStr ''horror''),
                      dict_get arguments ''difficulty'' (PStr ''medium''),
                      dict_get arguments ''variations'' (PInt 3)])) (\<lambda>context.
     bindM (execute_with_model env (PStr ''gemini-pro'') context (PStr ''high'')) (\<lambda>result.
     returnM [TextContent result])))"

definition DynamicDifficultyAgent_execute :: "env \<Rightarrow> pydict \<Rightarrow> TextContent list run" where
  "DynamicDifficultyAgent_execute env arguments =
     bindM (liftM (dict_index arguments ''player_data'')) (\<lambda>player_data.
     bindM (liftM (build_context env ''difficulty''
                     [player_data,
                      dict_get arguments ''current_difficulty'' (PStr ''medium''),
                      dict_get arguments ''metrics'' (PDict [])])) (\<lambda>context.
     bindM (execute_with_model env (PStr ''gemini-pro'') context (PStr ''medium'')) (\<lambda>result.
     returnM [TextContent result])))"

definition NarrativeAgent_execute :: "env \<Rightarrow> pydict \<Rightarrow> TextContent list run" where
  "NarrativeAgent_execute env arguments =
     bindM (liftM (dict_index arguments ''prompt'')) (\<lambda>story_prompt.
     bindM (liftM (build_context env ''narrative''
                     [story_prompt,
                      dict_get arguments ''theme'' (PStr ''slasher''),
                      dict_get arguments ''tone'' (PStr ''creepy''),
                      dict_get arguments ''length'' (PStr ''medium'')])) (\<lambda>context.
     bindM (execute_with_model env (PStr ''claude-haiku'') context (PStr ''high'')) (\<lambda>result.
     returnM [TextContent result])))"

definition AssetOptimizationAgent_execute :: "env \<Rightarrow> pydict \<Rightarrow> TextContent list run" where
  "AssetOptimizationAgent_execute env arguments =
     bindM (liftM (dict_index arguments ''assets'')) (\<lambda>asset_paths.
     bindM (liftM (build_context env ''asset''
                     [asset_paths,
                      dict_get arguments ''target_size'' (PStr ''512KB''),
                      dict_get arguments ''requirements'' (PDict [])])) (\<lambda>context.
     bindM (execute_with_model env (PStr ''ollama'') context (PStr ''medium'')) (\<lambda>result.
     returnM [TextContent result])))"

text \<open>\<open>self.agents\<close> of \<open>WorkflowOrchestrator.__init__\<close>: agent name to its \<open>execute\<close>.\<close>

definition agents :: "string \<rightharpoonup> (env \<Rightarrow> pydict \<Rightarrow> TextContent list run)" where
  "agents =
     [''architecture'' \<mapsto> ArchitectureAgent_execute,
      ''implementation'' \<mapsto> ImplementationAgent_execute,
      ''optimization'' \<mapsto> OptimizationAgent_execute,
      ''content'' \<mapsto> ContentAgent_execute,
      ''consensus'' \<mapsto> ConsensusAgent_execute,
      ''procedural_puzzle'' \<mapsto> ProceduralPuzzleAgent_execute,
      ''dynamic_difficulty'' \<mapsto> DynamicDifficultyAgent_execute,
      ''narrative'' \<mapsto> NarrativeAgent_execute,
      ''asset_optimization'' \<mapsto> AssetOptimizationAgent_execute]"

section \<open>Workflow steps\<close>

type_synonym task = pydict

text \<open>\<open>task.get("type") == t\<close>.\<close>

definition task_type_is :: "string \<Rightarrow> task \<Rightarrow> bool" where
  "task_type_is t task = (dict_get task ''type'' PNone = PStr t)"

text \<open>
  \<open>next(task for task in tasks if task.get("type") == t)\<close>. With no such task
  \<open>next\<close> raises \<open>StopIteration\<close>, which leaves a coroutine as a \<open>RuntimeError\<close>.
\<close>

definition next_task :: "string \<Rightarrow> task list \<Rightarrow> exn + task" where
  "next_task t tasks =
     (case find (task_type_is t) tasks of
        None \<Rightarrow> Inl (RuntimeError ''coroutine raised StopIteration'')
      | Some task \<Rightarrow> Inr task)"

text \<open>\<open>any(task.get("type") == t for task in tasks)\<close>.\<close>

definition any_task :: "string \<Rightarrow> task list \<Rightarrow> bool" where
  "any_task t tasks = list_ex (task_type_is t) tasks"

text \<open>\<open>sep.join(xs)\<close>.\<close>

fun str_join :: "string \<Rightarrow> string list \<Rightarrow> string" where
  "str_join sep [] = []"
| "str_join sep [x] = x"
| "str_join sep (x # y # ys) = x @ sep @ str_join sep (y # ys)"

definition execute_architecture_step :: "env \<Rightarrow> task list \<Rightarrow> string \<Rightarrow> string run" where
  "execute_architecture_step env tasks model_strategy =
     bindM (liftM (next_task ''architecture'' tasks)) (\<lambda>arch_task.
     bindM (liftM (dict_index arch_task ''prompt'')) (\<lambda>prompt.
     bindM (ArchitectureAgent_execute env
              [''prompt'' \<mapsto> prompt,
               ''files'' \<mapsto> dict_get arch_task ''files'' (PList []),
               ''model'' \<mapsto> PStr (select_model ''architecture'' model_strategy),
               ''thinking_mode'' \<mapsto> PStr ''high'']) (\<lambda>result.
     liftM (first_text result))))"

text \<open>The loop \<open>for task in impl_tasks\<close> of \<open>_execute_implementation_step\<close>.\<close>

fun implementation_loop :: "env \<Rightarrow> string \<Rightarrow> task list \<Rightarrow> string list \<Rightarrow> string list run" where
  "implementation_loop env model_strategy [] results = returnM results"
| "implementation_loop env model_strategy (task # rest) results =
     bindM (liftM (dict_index task ''prompt'')) (\<lambda>prompt.
     bindM (ImplementationAgent_execute env
              [''prompt'' \<mapsto> prompt,
               ''files'' \<mapsto> dict_get task ''files'' (PList []),
               ''model'' \<mapsto> PStr (select_model ''implementation'' model_strategy),
               ''thinking_mode'' \<mapsto> PStr ''medium'']) (\<lambda>result.
     bindM (liftM (first_text result)) (\<lambda>t.
     implementation_loop env model_strategy rest (results @ [t]))))"

definition execute_implementation_step :: "env \<Rightarrow> task list \<Rightarrow> string \<Rightarrow> string run" where
  "execute_implementation_step env tasks model_strategy =
     bindM (implementation_loop env model_strategy
              (filter (task_type_is ''implementation'') tasks) []) (\<lambda>results.
     returnM (str_join ''\<newline>\<newline>'' results))"

definition execute_content_step :: "env \<Rightarrow> task list \<Rightarrow> string \<Rightarrow> string run" where
  "execute_content_step env tasks model_strategy =
     bindM (liftM (next_task ''content'' tasks)) (\<lambda>content_task.
     bindM (liftM (dict_index content_task ''prompt'')) (\<lambda>prompt.
     bindM (ContentAgent_execute env
              [''prompt'' \<mapsto> prompt,
               ''files'' \<mapsto> dict_get content_task ''files'' (PList []),
               ''model'' \<mapsto> PStr (select_model ''content'' model_strategy),
               ''thinking_mode'' \<mapsto> PStr ''medium'']) (\<lambda>result.
     liftM (first_text result))))"

definition execute_optimization_step :: "env \<Rightarrow> task list \<Rightarrow> string \<Rightarrow> string run" where
  "execute_optimization_step env tasks model_strategy =
     bindM (liftM (next_task ''optimization'' tasks)) (\<lambda>opt_task.
     bindM (liftM (dict_index opt_task ''prompt'')) (\<lambda>prompt.
     bindM (OptimizationAgent_execute env
              [''prompt'' \<mapsto> prompt,
               ''files'' \<mapsto> dict_get opt_task ''files'' (PList []),
               ''model'' \<mapsto> PStr (select_model ''optimization'' model_strategy),
               ''thinking_mode'' \<mapsto> PStr ''medium'']) (\<lambda>result.
     liftM (first_text result))))"

definition analyze_puzzle_theme :: "env \<Rightarrow> task list \<Rightarrow> string run" where
  "analyze_puzzle_theme env tasks =
     bindM (liftM (next_task ''theme_analysis'' tasks)) (\<lambda>theme_task.
     bindM (liftM (dict_index theme_task ''prompt'')) (\<lambda>prompt.
     bindM (ContentAgent_execute env
              [''prompt'' \<mapsto> prompt,
               ''model'' \<mapsto> PStr ''claude-haiku'',
               ''thinking_mode'' \<mapsto> PStr ''medium'']) (\<lambda>result.
     liftM (first_text result))))"

definition generate_puzzle_variations :: "env \<Rightarrow> task list \<Rightarrow> string \<Rightarrow> string run" where
  "generate_puzzle_variations env tasks model_strategy =
     bindM (liftM (next_task ''procedural_generation'' tasks)) (\<lambda>gen_task.
     bindM (liftM (dict_index gen_task ''prompt'')) (\<lambda>prompt.
     bindM (context_get ''theme'' (PStr ''horror'')) (\<lambda>theme.
     bindM (context_get ''difficulty'' (PStr ''medium'')) (\<lambda>difficulty.
     bindM (context_get ''variations'' (PInt 3)) (\<lambda>variations.
     bindM (ProceduralPuzzleAgent_execute env
              [''prompt'' \<mapsto> prompt,
               ''theme'' \<mapsto> theme,
               ''difficulty'' \<mapsto> difficulty,
               ''variations'' \<mapsto> variations,
               ''model'' \<mapsto> PStr (select_model ''procedural_puzzle'' model_strategy),
               ''thinking_mode'' \<mapsto> PStr ''high'']) (\<lambda>result.
     liftM (first_text result)))))))"

definition balance_difficulty :: "env \<Rightarrow> task list \<Rightarrow> string \<Rightarrow> string run" where
  "balance_difficulty env tasks model_strategy =
     bindM (liftM (next_task ''difficulty_balancing'' tasks)) (\<lambda>diff_task.
     bindM (context_get ''player_data'' (PDict [])) (\<lambda>player_data.
     bindM (context_get ''current_difficulty'' (PStr ''medium'')) (\<lambda>current_difficulty.
     bindM (context_get ''metrics'' (PDict [])) (\<lambda>metrics.
     bindM (DynamicDifficultyAgent_execute env
              [''player_data'' \<mapsto> player_data,
               ''current_difficulty'' \<mapsto> current_difficulty,
               ''metrics'' \<mapsto> metrics,
               ''model'' \<mapsto> PStr (select_model ''dynamic_difficulty'' model_strategy),
               ''thinking_mode'' \<mapsto> PStr ''medium'']) (\<lambda>result.
     liftM (first_text result))))))"

definition integrate_narrative :: "env \<Rightarrow> task list \<Rightarrow> string \<Rightarrow> string run" where
  "integrate_narrative env tasks model_strategy =
     bindM (liftM (next_task ''narrative_integration'' tasks)) (\<lambda>narrative_task.
     bindM (liftM (dict_index narrative_task ''prompt'')) (\<lambda>prompt.
     bindM (context_get ''theme'' (PStr ''slasher'')) (\<lambda>theme.
     bindM (context_get ''tone'' (PStr ''creepy'')) (\<lambda>tone.
     bindM (context_get ''length'' (PStr ''medium'')) (\<lambda>len.
     bindM (NarrativeAgent_execute env
              [''prompt'' \<mapsto> prompt,
               ''theme'' \<mapsto> theme,
               ''tone'' \<mapsto> tone,
               ''length'' \<mapsto> len,
               ''model'' \<mapsto> PStr (select_model ''narrative'' model_strategy),
               ''thinking_mode'' \<mapsto> PStr ''high'']) (\<lambda>result.
     liftM (first_text result)))))))"

definition develop_story :: "env \<Rightarrow> task list \<Rightarrow> string \<Rightarrow> string run" where
  "develop_story env tasks model_strategy =
     bindM (liftM (next_task ''story_development'' tasks)) (\<lambda>story_task.
     bindM (liftM (dict_index story_task ''prompt'')) (\<lambda>prompt.
     bindM (context_get ''theme'' (PStr ''cosmic_horror'')) (\<lambda>theme.
     bindM (context_get ''tone'' (PStr ''atmospheric'')) (\<lambda>tone.
     bindM (context_get ''length'' (PStr ''long'')) (\<lambda>len.
     bindM (NarrativeAgent_execute env
              [''prompt'' \<mapsto> prompt,
               ''theme'' \<mapsto> theme,
               ''tone'' \<mapsto> tone,
               ''length'' \<mapsto> len,
               ''model'' \<mapsto> PStr (select_model ''narrative'' model_strategy),
               ''thinking_mode'' \<mapsto> PStr ''high'']) (\<lambda>result.
     liftM (first_text result)))))))"

definition create_characters :: "env \<Rightarrow> task list \<Rightarrow> string \<Rightarrow> string run" where
  "create_characters env tasks model_strategy =
     bindM (liftM (next_task ''character_creation'' tasks)) (\<lambda>char_task.
     bindM (liftM (dict_index char_task ''prompt'')) (\<lambda>prompt.
     bindM (ContentAgent_execute env
              [''prompt'' \<mapsto> prompt,
               ''model'' \<mapsto> PStr (select_model ''content'' model_strategy),
               ''thinking_mode'' \<mapsto> PStr ''medium'']) (\<lambda>result.
     liftM (first_text result))))"

definition write_scenes :: "env \<Rightarrow> task list \<Rightarrow> string \<Rightarrow> string run" where
  "write_scenes env tasks model_strategy =
     bindM (liftM (next_task ''scene_writing'' tasks)) (\<lambda>scene_task.
     bindM (liftM (dict_index scene_task ''prompt'')) (\<lambda>prompt.
     bindM (context_get ''theme'' (PStr ''slasher'')) (\<lambda>theme.
     bindM (context_get ''tone'' (PStr ''tense'')) (\<lambda>tone.
     bindM (context_get ''length'' (PStr ''medium'')) (\<lambda>len.
     bindM (NarrativeAgent_execute env
              [''prompt'' \<mapsto> prompt,
               ''theme'' \<mapsto> theme,
               ''tone'' \<mapsto> tone,
               ''length'' \<mapsto> len,
               ''model'' \<mapsto> PStr (select_model ''narrative'' model_strategy),
               ''thinking_mode'' \<mapsto> PStr ''high'']) (\<lambda>result.
     liftM (first_text result)))))))"

definition generate_assets :: "env \<Rightarrow> task list \<Rightarrow> string \<Rightarrow> string run" where
  "generate_assets env tasks model_strategy =
     bindM (liftM (next_task ''asset_generation'' tasks)) (\<lambda>asset_task.
     bindM (context_get ''target_size'' (PStr ''512KB'')) (\<lambda>target_size.
     bindM (context_get ''requirements'' (PDict [])) (\<lambda>requirements.
     bindM (AssetOptimizationAgent_execute env
              [''assets'' \<mapsto> dict_get asset_task ''assets'' (PList []),
               ''target_size'' \<mapsto> target_size,
               ''requirements'' \<mapsto> requirements,
               ''model'' \<mapsto> PStr (select_model ''asset_optimization'' model_strategy),
               ''thinking_mode'' \<mapsto> PStr ''medium'']) (\<lambda>result.
     liftM (first_text result)))))"

definition analyze_performance :: "env \<Rightarrow> task list \<Rightarrow> string \<Rightarrow> string run" where
  "analyze_performance env tasks model_strategy =
     bindM (liftM (next_task ''performance_analysis'' tasks)) (\<lambda>perf_task.
     bindM (liftM (dict_index perf_task ''prompt'')) (\<lambda>prompt.
     bindM (OptimizationAgent_execute env
              [''prompt'' \<mapsto> prompt,
               ''files'' \<mapsto> dict_get perf_task ''files'' (PList []),
               ''model'' \<mapsto> PStr (select_model ''optimization'' model_strategy),
               ''thinking_mode'' \<mapsto> PStr ''medium'']) (\<lambda>result.
     liftM (first_text result))))"

definition identify_bottlenecks :: "env \<Rightarrow> task list \<Rightarrow> string \<Rightarrow> string run" where
  "identify_bottlenecks env tasks model_strategy =
     bindM (liftM (next_task ''bottleneck_identification'' tasks)) (\<lambda>bottleneck_task.
     bindM (liftM (dict_index bottleneck_task ''prompt'')) (\<lambda>prompt.
     bindM (OptimizationAgent_execute env
              [''prompt'' \<mapsto> prompt,
               ''files'' \<mapsto> dict_get bottleneck_task ''files'' (PList []),
               ''model'' \<mapsto> PStr (select_model ''optimization'' model_strategy),
               ''thinking_mode'' \<mapsto> PStr ''medium'']) (\<lambda>result.
     liftM (first_text result))))"

definition generate_optimizations :: "env \<Rightarrow> task list \<Rightarrow> string \<Rightarrow> string run" where
  "generate_optimizations env tasks model_strategy =
     bindM (liftM (next_task ''optimization_recommendations'' tasks)) (\<lambda>opt_task.
     bindM (liftM (dict_index opt_task ''prompt'')) (\<lambda>prompt.
     bindM (OptimizationAgent_execute env
              [''prompt'' \<mapsto> prompt,
               ''files'' \<mapsto> dict_get opt_task ''files'' (PList []),
               ''model'' \<mapsto> PStr (select_model ''optimization'' model_strategy),
               ''thinking_mode'' \<mapsto> PStr ''medium'']) (\<lambda>result.
     liftM (first_text result))))"

definition create_implementation_plan :: "env \<Rightarrow> task list \<Rightarrow> string \<Rightarrow> string run" where
  "create_implementation_plan env tasks model_strategy =
     bindM (liftM (next_task ''implementation_plan'' tasks)) (\<lambda>plan_task.
     bindM (liftM (dict_index plan_task ''prompt'')) (\<lambda>prompt.
     bindM (ArchitectureAgent_execute env
              [''prompt'' \<mapsto> prompt,
               ''files'' \<mapsto> dict_get plan_task ''files'' (PList []),
               ''model'' \<mapsto> PStr (select_model ''architecture'' model_strategy),
               ''thinking_mode'' \<mapsto> PStr ''high'']) (\<lambda>result.
     liftM (first_text result))))"

section \<open>The named workflows\<close>

type_synonym steps = "(pyval \<times> string) list"

text \<open>
  A step of a named workflow: run the step's coroutine and append its name and result
  to \<open>workflow_steps\<close>. There is no \<open>try\<close> around the call: an exception of the
  step is an exception of the workflow.
\<close>

definition append_step :: "steps \<Rightarrow> string \<Rightarrow> string run \<Rightarrow> steps run" where
  "append_step workflow_steps step_name step =
     bindM step (\<lambda>result. returnM (workflow_steps @ [(PStr step_name, result)]))"

definition execute_game_development_workflow ::
  "env \<Rightarrow> task list \<Rightarrow> bool \<Rightarrow> string \<Rightarrow> string run" where
  "execute_game_development_workflow env tasks parallel model_strategy =
     bindM (if any_task ''architecture'' tasks
            then append_step [] ''Architecture Planning''
                   (execute_architecture_step env tasks model_strategy)
            else returnM []) (\<lambda>steps1.
     bindM (if any_task ''implementation'' tasks
            then append_step steps1 ''Implementation''
                   (execute_implementation_step env tasks model_strategy)
            else returnM steps1) (\<lambda>steps2.
     bindM (if any_task ''content'' tasks
            then append_step steps2 ''Content Creation''
                   (execute_content_step env tasks model_strategy)
            else returnM steps2) (\<lambda>steps3.
     bindM (if any_task ''optimization'' tasks
            then append_step steps3 ''Performance Optimization''
                   (execute_optimization_step env tasks model_strategy)
            else returnM steps3) (\<lambda>steps4.
     returnM (generate_workflow_report env ''Game Development'' steps4)))))"

definition execute_puzzle_generation_workflow ::
  "env \<Rightarrow> task list \<Rightarrow> bool \<Rightarrow> string \<Rightarrow> string run" where
  "execute_puzzle_generation_workflow env tasks parallel model_strategy =
     bindM (append_step [] ''Theme Analysis'' (analyze_puzzle_theme env tasks)) (\<lambda>steps1.
     bindM (append_step steps1 ''Puzzle Generation''
              (generate_puzzle_variations env tasks model_strategy)) (\<lambda>steps2.
     bindM (context_has ''difficulty_adjustment'') (\<lambda>has_difficulty.
     bindM (if has_difficulty
            then append_step steps2 ''Difficulty Balancing''
                   (balance_difficulty env tasks model_strategy)
            else returnM steps2) (\<lambda>steps3.
     bindM (context_has ''narrative'') (\<lambda>has_narrative.
     bindM (if has_narrative
            then append_step steps3 ''Narrative Integration''
                   (integrate_narrative env tasks model_strategy)
            else returnM steps3) (\<lambda>steps4.
     returnM (generate_workflow_report env ''Puzzle Generation'' steps4)))))))"

definition execute_content_creation_workflow ::
  "env \<Rightarrow> task list \<Rightarrow> bool \<Rightarrow> string \<Rightarrow> string run" where
  "execute_content_creation_workflow env tasks parallel model_strategy =
     bindM (append_step [] ''Story Development''
              (develop_story env tasks model_strategy)) (\<lambda>steps1.
     bindM (context_has ''characters'') (\<lambda>has_characters.
     bindM (if has_characters
            then append_step steps1 ''Character Creation''
                   (create_characters env tasks model_strategy)
            else returnM steps1) (\<lambda>steps2.
     bindM (append_step steps2 ''Scene Writing''
              (write_scenes env tasks model_strategy)) (\<lambda>steps3.
     bindM (context_has ''assets'') (\<lambda>has_assets.
     bindM (if has_assets
            then append_step steps3 ''Asset Generation''
                   (generate_assets env tasks model_strategy)
            else returnM steps3) (\<lambda>steps4.
     returnM (generate_workflow_report env ''Content Creation'' steps4)))))))"

definition execute_optimization_workflow ::
  "env \<Rightarrow> task list \<Rightarrow> bool \<Rightarrow> string \<Rightarrow> string run" where
  "execute_optimization_workflow env tasks parallel model_strategy =
     bindM (append_step [] ''Performance Analysis''
              (analyze_performance env tasks model_strategy)) (\<lambda>steps1.
     bindM (append_step steps1 ''Bottleneck Identification''
              (identify_bottlenecks env tasks model_strategy)) (\<lambda>steps2.
     bindM (append_step steps2 ''Optimization Recommendations''
              (generate_optimizations env tasks model_strategy)) (\<lambda>steps3.
     bindM (append_step steps3 ''Implementation Strategy''
              (create_implementation_plan env tasks model_strategy)) (\<lambda>steps4.
     returnM (generate_workflow_report env ''Optimization'' steps4)))))"

section \<open>The custom workflow\<close>

text \<open>
  The agent-specific parameters that \<open>_execute_single_task\<close> adds to \<open>task_args\<close>
  (a dictionary local to the call).
\<close>

definition agent_specific_args :: "string \<Rightarrow> task \<Rightarrow> pydict \<Rightarrow> pydict" where
  "agent_specific_args agent_name task task_args =
     (if agent_name = ''procedural_puzzle'' then
        task_args(''theme'' \<mapsto> dict_get task ''theme'' (PStr ''horror''),
                  ''difficulty'' \<mapsto> dict_get task ''difficulty'' (PStr ''medium''),
                  ''variations'' \<mapsto> dict_get task ''variations'' (PInt 3))
      else if agent_name = ''dynamic_difficulty'' then
        task_args(''player_data'' \<mapsto> dict_get task ''player_data'' (PDict []),
                  ''current_difficulty'' \<mapsto> dict_get task ''current_difficulty'' (PStr ''medium''),
                  ''metrics'' \<mapsto> dict_get task ''metrics'' (PDict []))
      else if agent_name = ''narrative'' then
        task_args(''theme'' \<mapsto> dict_get task ''theme'' (PStr ''slasher''),
                  ''tone'' \<mapsto> dict_get task ''tone'' (PStr ''creepy''),
                  ''length'' \<mapsto> dict_get task ''length'' (PStr ''medium''))
      else if agent_name = ''asset_optimization'' then
        task_args(''assets'' \<mapsto> dict_get task ''assets'' (PList []),
                  ''target_size'' \<mapsto> dict_get task ''target_size'' (PStr ''512KB''),
                  ''requirements'' \<mapsto> dict_get task ''requirements'' (PDict []))
      else task_args)"

text \<open>
  \<open>_execute_single_task\<close>. The test \<open>agent_name not in self.agents\<close> hashes the
  name: a list or a dictionary raises \<open>TypeError\<close>, any other value that is not one
  of the nine names is an unknown agent.
\<close>

definition execute_single_task :: "env \<Rightarrow> task \<Rightarrow> string \<Rightarrow> string run" where
  "execute_single_task env task model_strategy =
     (case dict_get task ''agent'' (dict_get task ''type'' PNone) of
        PList xs \<Rightarrow>
          raiseM (TypeError (''unhashable type: '' @ [CHR 0x27] @ ''list'' @ [CHR 0x27]))
      | PDict kvs \<Rightarrow>
          raiseM (TypeError (''unhashable type: '' @ [CHR 0x27] @ ''dict'' @ [CHR 0x27]))
      | PStr agent_name \<Rightarrow>
          (case agents agent_name of
             None \<Rightarrow> raiseM (ToolExecutionError (''Unknown agent: '' @ agent_name))
           | Some agent_execute \<Rightarrow>
               bindM (liftM (dict_index task ''prompt'')) (\<lambda>prompt.
               bindM (agent_execute env
                        (agent_specific_args agent_name task
                           [''prompt'' \<mapsto> prompt,
                            ''model'' \<mapsto> PStr (select_model agent_name model_strategy),
                            ''thinking_mode'' \<mapsto>
                               dict_get task ''thinking_mode'' (PStr ''medium'')])) (\<lambda>result.
               liftM (first_text result))))
      | other \<Rightarrow> raiseM (ToolExecutionError (''Unknown agent: '' @ py_str env other)))"

text \<open>
  The text a custom step records for the outcome of its task: the result, or
  \<open>f"Error: {e}"\<close> for the exception caught.
\<close>

definition outcome_text :: "exn + string \<Rightarrow> string" where
  "outcome_text r = (case r of Inl e \<Rightarrow> ''Error: '' @ exn_str e | Inr result \<Rightarrow> result)"

text \<open>
  The sequential branch: \<open>for task in tasks\<close> with \<open>try ... except Exception\<close> around
  each task.
\<close>

fun custom_sequential :: "env \<Rightarrow> string \<Rightarrow> task list \<Rightarrow> steps \<Rightarrow> steps run" where
  "custom_sequential env model_strategy [] workflow_steps = returnM workflow_steps"
| "custom_sequential env model_strategy (task # rest) workflow_steps =
     (\<lambda>s. case execute_single_task env task model_strategy s of
        (Inr result, s') \<Rightarrow>
          custom_sequential env model_strategy rest
            (workflow_steps @ [(dict_get task ''name'' (PStr ''Task''), result)]) s'
      | (Inl e, s') \<Rightarrow>
          custom_sequential env model_strategy rest
            (workflow_steps @ [(dict_get task ''name'' (PStr ''Task''), ''Error: '' @ exn_str e)]) s')"

text \<open>
  \<open>asyncio.gather(*coros, return_exceptions=True)\<close>. The coroutines are started in the
  order they are given; a task makes its provider call when it is started, so the calls
  are logged in task order (a coroutine is run to its end when it is started: the
  interleaving of the several calls of one consensus task with the calls of other tasks is
  not modelled). The event loop then sees the coroutines complete in some order: the
  indices named by \<open>completion_order\<close> first, in that order, then the others. Each
  completion is recorded with the index of its coroutine, and \<open>gather\<close> hands the
  outcomes back sorted by that index. With \<open>return_exceptions=True\<close> an exception is an
  outcome like any other.
\<close>

definition completion_schedule :: "nat \<Rightarrow> nat list \<Rightarrow> nat list" where
  "completion_schedule n order =
     remdups (filter (\<lambda>i. i < n) order) @ filter (\<lambda>i. i \<notin> set order) [0..<n]"

fun start_all ::
  "string run list \<Rightarrow> (exn + string) list \<Rightarrow> run_state \<Rightarrow> (exn + string) list \<times> run_state" where
  "start_all [] outcomes s = (outcomes, s)"
| "start_all (coro # rest) outcomes s =
     (case coro s of (r, s') \<Rightarrow> start_all rest (outcomes @ [r]) s')"

definition gather :: "env \<Rightarrow> string run list \<Rightarrow> (exn + string) list run" where
  "gather env coros =
     (\<lambda>s. case start_all coros [] s of
        (outcomes, s') \<Rightarrow>
          (Inr (map snd (sort_key fst
                  (map (\<lambda>i. (i, outcomes ! i))
                     (completion_schedule (length coros) (completion_order env))))), s'))"

text \<open>\<open>tasks[i]\<close>, which raises \<open>IndexError\<close> out of range.\<close>

definition list_index :: "'a list \<Rightarrow> nat \<Rightarrow> exn + 'a" where
  "list_index xs i = (if i < length xs then Inr (xs ! i) else Inl (IndexError ''list index out of range''))"

text \<open>The loop \<open>for i, result in enumerate(results)\<close> of the parallel branch.\<close>

fun parallel_steps :: "task list \<Rightarrow> nat \<Rightarrow> (exn + string) list \<Rightarrow> steps \<Rightarrow> exn + steps" where
  "parallel_steps tasks i [] workflow_steps = Inr workflow_steps"
| "parallel_steps tasks i (result # rest) workflow_steps =
     (case list_index tasks i of
        Inl e \<Rightarrow> Inl e
      | Inr task \<Rightarrow>
          parallel_steps tasks (Suc i) rest
            (workflow_steps @
               [(dict_get task ''name'' (PStr (''Task '' @ string_of_nat (i + 1))),
                 (case result of Inl e \<Rightarrow> ''Error: '' @ exn_str e | Inr r \<Rightarrow> r))]))"

definition execute_custom_workflow ::
  "env \<Rightarrow> task list \<Rightarrow> bool \<Rightarrow> string \<Rightarrow> string run" where
  "execute_custom_workflow env tasks parallel model_strategy =
     bindM (if parallel then
              bindM (gather env (map (\<lambda>task. execute_single_task env task model_strategy) tasks))
                (\<lambda>results. liftM (parallel_steps tasks 0 results []))
            else custom_sequential env model_strategy tasks []) (\<lambda>workflow_steps.
     returnM (generate_workflow_report env ''Custom Workflow'' workflow_steps))"

section \<open>The entry point\<close>

text \<open>
  The arguments of \<open>WorkflowOrchestrator.execute\<close>: \<open>workflow_type\<close> and \<open>tasks\<close>
  are required; \<open>parallel\<close> and \<open>model_strategy\<close> are read with \<open>.get\<close> and a
  default. The \<open>context\<close> argument is the dictionary held in the run state (the empty
  dictionary when the caller passes none).
\<close>

record arguments =
  arg_workflow_type :: string
  arg_tasks :: "task list"
  arg_parallel :: "bool option"
  arg_model_strategy :: "string option"

definition execute :: "env \<Rightarrow> arguments \<Rightarrow> TextContent list run" where
  "execute env args =
     (let workflow_type = arg_workflow_type args;
          tasks = arg_tasks args;
          parallel = (case arg_parallel args of None \<Rightarrow> False | Some b \<Rightarrow> b);
          model_strategy = (case arg_model_strategy args of None \<Rightarrow> ''auto'' | Some m \<Rightarrow> m)
      in bindM
           (if workflow_type = ''game_development'' then
              execute_game_development_workflow env tasks parallel model_strategy
            else if workflow_type = ''puzzle_generation'' then
              execute_puzzle_generation_workflow env tasks parallel model_strategy
            else if workflow_type = ''content_creation'' then
              execute_content_creation_workflow env tasks parallel model_strategy
            else if workflow_type = ''optimization'' then
              execute_optimization_workflow env tasks parallel model_strategy
            else if workflow_type = ''custom'' then
              execute_custom_workflow env tasks parallel model_strategy
            else raiseM (ToolExecutionError (''Unknown workflow type: '' @ workflow_type)))
           (\<lambda>result. returnM [TextContent result]))"

section \<open>A concrete environment\<close>

text \<open>
  An environment to run the definitions on: four models have a provider, which answers
  every prompt except \<open>boom\<close>; the prompt templates hand the task's prompt through;
  the event loop completes the third task first.
\<close>

definition demo_provider :: provider where
  "demo_provider context model thinking_mode =
     (if context = ''boom'' then Inl (ProviderError ''provider unavailable'')
      else Inr (''reply to '' @ context))"

definition demo_build_context :: "string \<Rightarrow> pyval list \<Rightarrow> exn + string" where
  "demo_build_context template args =
     (case args of PStr p # rest \<Rightarrow> Inr p | _ \<Rightarrow> Inr template)"

definition ascii_upper :: "string \<Rightarrow> string" where
  "ascii_upper s =
     map (\<lambda>c. case map_of (zip ''abcdefghijklmnopqrstuvwxyz'' ''ABCDEFGHIJKLMNOPQRSTUVWXYZ'') c of
                None \<Rightarrow> c | Some u \<Rightarrow> u) s"

definition demo_env :: env where
  "demo_env =
     \<lparr> get_provider_for_model =
         (\<lambda>m. if m = PStr ''gemini-pro'' \<or> m = PStr ''gemini-flash''
                  \<or> m = PStr ''claude-haiku'' \<or> m = PStr ''ollama''
               then Some demo_provider else None),
       build_context = demo_build_context,
       py_repr = (\<lambda>v. ''<object>''),
       py_upper = ascii_upper,
       now = \<lparr> year = 2024, month = 1, day = 2, hour = 3, minute = 4, second = 5 \<rparr>,
       completion_order = [2, 0, 1] \<rparr>"

definition empty_state :: run_state where
  "empty_state = \<lparr> shared_context = Map.empty, provider_calls = [] \<rparr>"



section \<open>Properties of runs\<close>

text \<open>
  A run keeps the context when the shared context dictionary is the same after it as
  before it, whatever the state it starts from. A run is stateless when its outcome (the
  result or the exception) is the same from every state.
\<close>

definition keeps_context :: "'a run \<Rightarrow> bool" where
  "keeps_context m = (\<forall>s. shared_context (snd (m s)) = shared_context s)"

definition stateless :: "'a run \<Rightarrow> bool" where
  "stateless m = (\<forall>s s'. fst (m s) = fst (m s'))"

section \<open>Model selection: the substitution table\<close>

text \<open>
  Claim C2. \<open>_select_model\<close> follows the fixed table: architecture under \<open>auto\<close>
  gives gemini-pro, architecture under \<open>cost_optimized\<close> gives gemini-flash,
  implementation under \<open>performance_optimized\<close> gives gemini-pro; an agent type that
  the base table does not hold has the fallback gemini-flash as its base model; each
  strategy replaces the models of its own table and returns every other base model
  unchanged, and any other strategy returns the base model.
\<close>

theorem select_model_table:
  "select_model ''architecture'' ''auto'' = ''gemini-pro''
   \<and> select_model ''architecture'' ''cost_optimized'' = ''gemini-flash''
   \<and> select_model ''implementation'' ''performance_optimized'' = ''gemini-pro''
   \<and> (model_map agent_type = None \<longrightarrow> base_model agent_type = ''gemini-flash'')
   \<and> (strategy = ''cost_optimized'' \<longrightarrow>
        select_model agent_type strategy =
          (if base_model agent_type = ''gemini-pro'' \<or> base_model agent_type = ''claude-haiku''
           then ''gemini-flash'' else base_model agent_type))
   \<and> (strategy = ''performance_optimized'' \<longrightarrow>
        select_model agent_type strategy =
          (if base_model agent_type = ''gemini-flash'' \<or> base_model agent_type = ''ollama''
           then ''gemini-pro'' else base_model agent_type))
   \<and> (strategy = ''balanced'' \<longrightarrow>
        select_model agent_type strategy =
          (if base_model agent_type = ''gemini-pro'' \<or> base_model agent_type = ''ollama''
           then ''gemini-flash'' else base_model agent_type))
   \<and> (strategy \<noteq> ''cost_optimized'' \<and> strategy \<noteq> ''performance_optimized''
        \<and> strategy \<noteq> ''balanced'' \<longrightarrow>
        select_model agent_type strategy = base_model agent_type)"
  by (simp add: select_model_def base_model_def model_map_def)

theorem select_model_table_witness:
  "model_map ''consensus'' = None
   \<and> base_model ''consensus'' = ''gemini-flash''
   \<and> select_model ''consensus'' ''cost_optimized'' = ''gemini-flash''
   \<and> select_model ''consensus'' ''performance_optimized'' = ''gemini-pro''
   \<and> select_model ''content'' ''balanced'' = ''claude-haiku''
   \<and> select_model ''optimization'' ''fastest'' = ''ollama''"
proof -
  have u: "model_map ''consensus'' = None"
    by (simp add: model_map_def)
  have b1: "base_model ''content'' = ''claude-haiku''"
    by (simp add: base_model_def model_map_def)
  have b2: "base_model ''optimization'' = ''ollama''"
    by (simp add: base_model_def model_map_def)
  from select_model_table [of "''consensus''" "''cost_optimized''"] u
  have c: "base_model ''consensus'' = ''gemini-flash''"
    "select_model ''consensus'' ''cost_optimized'' = ''gemini-flash''" by simp_all
  from select_model_table [of "''consensus''" "''performance_optimized''"] c
  have p: "select_model ''consensus'' ''performance_optimized'' = ''gemini-pro''" by simp
  from select_model_table [of "''content''" "''balanced''"] b1
  have bl: "select_model ''content'' ''balanced'' = ''claude-haiku''" by simp
  from select_model_table [of "''optimization''" "''fastest''"] b2
  have au: "select_model ''optimization'' ''fastest'' = ''ollama''" by simp
  from u c p bl au show ?thesis by simp
qed

section \<open>The rendered report\<close>

lemma report_steps_acc:
  "report_steps env i steps acc = acc @ report_steps env i steps []"
proof (induction steps arbitrary: i acc)
  case Nil
  show ?case by simp
next
  case (Cons st steps)
  obtain n r where st: "st = (n, r)" by (cases st)
  show ?case
    unfolding st report_steps.simps
    by (subst Cons.IH) (subst (2) Cons.IH, simp)
qed

lemma py_str_now: "py_str (env\<lparr>now := t\<rparr>) v = py_str env v"
  by (cases v) (simp_all add: py_str_def)

lemma report_steps_now:
  "report_steps (env\<lparr>now := t\<rparr>) i steps acc = report_steps env i steps acc"
proof (induction steps arbitrary: i acc)
  case Nil
  show ?case by simp
next
  case (Cons st steps)
  obtain n r where st: "st = (n, r)" by (cases st)
  show ?case unfolding st report_steps.simps Cons.IH py_str_now ..
qed

text \<open>The clock enters the report at one place: the line \<open>**Generated:**\<close>.\<close>

lemma report_shape:
  "\<exists>pre post. \<forall>t. generate_workflow_report (env\<lparr>now := t\<rparr>) workflow_name steps
       = pre @ strftime t @ post"
proof (intro exI allI)
  fix t
  show "generate_workflow_report (env\<lparr>now := t\<rparr>) workflow_name steps
       = (''# '' @ workflow_name @ '' Workflow Report\<newline>\<newline>'' @ ''**Generated:** '')
         @ strftime t @
         (''\<newline>'' @ ''**Total Steps:** '' @ string_of_nat (length steps) @ ''\<newline>\<newline>''
           @ report_steps env 1 steps []
           @ ''## Workflow Summary\<newline>\<newline>''
           @ ''- **Workflow Type:** '' @ workflow_name @ ''\<newline>''
           @ ''- **Steps Completed:** '' @ string_of_nat (length steps) @ ''\<newline>''
           @ ''- **Status:** Completed Successfully\<newline>\<newline>''
           @ ''## Recommendations\<newline>\<newline>''
           @ ''1. Review each step's output for quality and completeness\<newline>''
           @ ''2. Implement recommendations in order of priority\<newline>''
           @ ''3. Test changes thoroughly before deployment\<newline>''
           @ ''4. Monitor performance and user feedback\<newline>\<newline>'')"
    unfolding generate_workflow_report_def get_timestamp_def report_steps_now
    by (subst report_steps_acc) simp
qed

lemma report_eq_iff_timestamp:
  "generate_workflow_report (env\<lparr>now := t1\<rparr>) workflow_name steps
     = generate_workflow_report (env\<lparr>now := t2\<rparr>) workflow_name steps
   \<longleftrightarrow> strftime t1 = strftime t2"
proof -
  obtain pre post where
    "\<forall>t. generate_workflow_report (env\<lparr>now := t\<rparr>) workflow_name steps = pre @ strftime t @ post"
    using report_shape by blast
  then show ?thesis by simp
qed

text \<open>The report, written out.\<close>

lemma report_steps_text:
  "report_steps env i steps acc =
     acc @ concat (map (\<lambda>(j, step_name, step_result).
                          ''## Step '' @ string_of_nat j @ '': '' @ py_str env step_name
                            @ ''\<newline>\<newline>'' @ step_result @ ''\<newline>\<newline>'' @ ''---\<newline>\<newline>'')
                     (enumerate i steps))"
proof (induction steps arbitrary: i acc)
  case Nil
  show ?case by simp
next
  case (Cons st steps)
  obtain n r where st: "st = (n, r)" by (cases st)
  show ?case unfolding st by (simp add: Cons.IH)
qed

lemma report_text:
  "generate_workflow_report env workflow_name steps =
     ''# '' @ workflow_name @ '' Workflow Report\<newline>\<newline>''
     @ ''**Generated:** '' @ get_timestamp env @ ''\<newline>''
     @ ''**Total Steps:** '' @ string_of_nat (length steps) @ ''\<newline>\<newline>''
     @ concat (map (\<lambda>(j, step_name, step_result).
                      ''## Step '' @ string_of_nat j @ '': '' @ py_str env step_name
                        @ ''\<newline>\<newline>'' @ step_result @ ''\<newline>\<newline>'' @ ''---\<newline>\<newline>'')
                 (enumerate 1 steps))
     @ ''## Workflow Summary\<newline>\<newline>''
     @ ''- **Workflow Type:** '' @ workflow_name @ ''\<newline>''
     @ ''- **Steps Completed:** '' @ string_of_nat (length steps) @ ''\<newline>''
     @ ''- **Status:** Completed Successfully\<newline>\<newline>''
     @ ''## Recommendations\<newline>\<newline>''
     @ ''1. Review each step's output for quality and completeness\<newline>''
     @ ''2. Implement recommendations in order of priority\<newline>''
     @ ''3. Test changes thoroughly before deployment\<newline>''
     @ ''4. Monitor performance and user feedback\<newline>\<newline>''"
  unfolding generate_workflow_report_def
  by (subst report_steps_text) simp

text \<open>
  Claim C5. Whatever the workflow name and the steps, and so whether or not a step's
  result is an error text, the report ends with the summary section, whose status line
  is the literal \<open>Completed Successfully\<close>, followed by the fixed recommendations.
\<close>

theorem report_status_unconditional:
  "\<exists>body. generate_workflow_report env workflow_name steps =
     body @ ''## Workflow Summary\<newline>\<newline>''
          @ ''- **Workflow Type:** '' @ workflow_name @ ''\<newline>''
          @ ''- **Steps Completed:** '' @ string_of_nat (length steps) @ ''\<newline>''
          @ ''- **Status:** Completed Successfully\<newline>\<newline>''
          @ ''## Recommendations\<newline>\<newline>''
          @ ''1. Review each step's output for quality and completeness\<newline>''
          @ ''2. Implement recommendations in order of priority\<newline>''
          @ ''3. Test changes thoroughly before deployment\<newline>''
          @ ''4. Monitor performance and user feedback\<newline>\<newline>''"
  unfolding generate_workflow_report_def by (rule exI) (rule refl)

text \<open>
  Claim C8. The report is a fixed text around the name, the steps and one timestamp: the
  clock is read once, for the line \<open>**Generated:**\<close>, and nothing else in the text
  depends on it. So two renderings of the same name and the same steps are the same text,
  byte for byte, apart from that one declared field: they are equal exactly when the two
  timestamps are.
\<close>

theorem report_rendering_twice:
  "generate_workflow_report (env\<lparr>now := t\<rparr>) workflow_name steps =
     ''# '' @ workflow_name @ '' Workflow Report\<newline>\<newline>''
     @ ''**Generated:** '' @ get_timestamp (env\<lparr>now := t\<rparr>) @ ''\<newline>''
     @ ''**Total Steps:** '' @ string_of_nat (length steps) @ ''\<newline>\<newline>''
     @ concat (map (\<lambda>(j, step_name, step_result).
                      ''## Step '' @ string_of_nat j @ '': '' @ py_str env step_name
                        @ ''\<newline>\<newline>'' @ step_result @ ''\<newline>\<newline>'' @ ''---\<newline>\<newline>'')
                 (enumerate 1 steps))
     @ ''## Workflow Summary\<newline>\<newline>''
     @ ''- **Workflow Type:** '' @ workflow_name @ ''\<newline>''
     @ ''- **Steps Completed:** '' @ string_of_nat (length steps) @ ''\<newline>''
     @ ''- **Status:** Completed Successfully\<newline>\<newline>''
     @ ''## Recommendations\<newline>\<newline>''
     @ ''1. Review each step's output for quality and completeness\<newline>''
     @ ''2. Implement recommendations in order of priority\<newline>''
     @ ''3. Test changes thoroughly before deployment\<newline>''
     @ ''4. Monitor performance and user feedback\<newline>\<newline>''
   \<and> (generate_workflow_report (env\<lparr>now := t1\<rparr>) workflow_name steps
        = generate_workflow_report (env\<lparr>now := t2\<rparr>) workflow_name steps
      \<longleftrightarrow> get_timestamp (env\<lparr>now := t1\<rparr>) = get_timestamp (env\<lparr>now := t2\<rparr>))"
  by (simp add: report_text py_str_now report_eq_iff_timestamp get_timestamp_def)

section \<open>The shared context is only read\<close>

named_theorems keeps

lemma keeps_returnM [keeps]: "keeps_context (returnM x)"
  by (simp add: keeps_context_def returnM_def)

lemma keeps_raiseM [keeps]: "keeps_context (raiseM e)"
  by (simp add: keeps_context_def raiseM_def)

lemma keeps_liftM [keeps]: "keeps_context (liftM r)"
  by (simp add: keeps_context_def liftM_def)

lemma keeps_bindM [keeps]:
  assumes "keeps_context m" and "\<And>x. keeps_context (f x)"
  shows "keeps_context (bindM m f)"
  unfolding keeps_context_def
proof
  fix s
  obtain r s' where ms: "m s = (r, s')" by (cases "m s")
  have c: "shared_context s' = shared_context s"
    using assms(1) ms by (auto simp: keeps_context_def dest: spec [of _ s])
  show "shared_context (snd (bindM m f s)) = shared_context s"
  proof (cases r)
    case (Inl e)
    then show ?thesis using ms c by (simp add: bindM_def)
  next
    case (Inr x)
    have "shared_context (snd (f x s')) = shared_context s'"
      using assms(2) [of x] by (simp add: keeps_context_def)
    then show ?thesis using ms c Inr by (simp add: bindM_def)
  qed
qed

lemma keeps_if [keeps]:
  "keeps_context m1 \<Longrightarrow> keeps_context m2 \<Longrightarrow> keeps_context (if b then m1 else m2)"
  by simp

lemma keeps_context_get [keeps]: "keeps_context (context_get k d)"
  by (simp add: keeps_context_def context_get_def)

lemma keeps_context_has [keeps]: "keeps_context (context_has k)"
  by (simp add: keeps_context_def context_has_def)

lemma keeps_execute_with_model [keeps]: "keeps_context (execute_with_model env model c tm)"
  by (simp add: keeps_context_def execute_with_model_def split: option.splits sum.splits)

lemma keeps_provider_call:
  "keeps_context (\<lambda>s. (r, s\<lparr>provider_calls := provider_calls s @ [c]\<rparr>))"
  by (simp add: keeps_context_def)

lemma keeps_collect_responses [keeps]:
  "keeps_context (collect_responses env prompt files models tm ms acc)"
proof (induction ms arbitrary: acc)
  case Nil
  show ?case by (simp add: keeps)
next
  case (Cons m ms)
  show ?case
    by (cases "get_provider_for_model env m")
       (simp_all add: Cons.IH keeps keeps_provider_call)
qed

lemma keeps_try:
  assumes "keeps_context m"
  shows "keeps_context (\<lambda>s. case m s of (Inl e, s') \<Rightarrow> (Inl (h e), s') | (Inr x, s') \<Rightarrow> (Inr x, s'))"
  unfolding keeps_context_def
proof
  fix s
  obtain r s' where ms: "m s = (r, s')" by (cases "m s")
  have "shared_context s' = shared_context s"
    using assms ms by (auto simp: keeps_context_def dest: spec [of _ s])
  then show "shared_context (snd (case m s of (Inl e, s') \<Rightarrow> (Inl (h e), s') | (Inr x, s') \<Rightarrow> (Inr x, s'))) = shared_context s"
    using ms by (cases r) simp_all
qed

lemma keeps_execute_consensus_workflow [keeps]:
  "keeps_context (execute_consensus_workflow env prompt files models tm)"
  unfolding execute_consensus_workflow_def
  by (rule keeps_try) (intro keeps)

lemma keeps_agents_execute [keeps]:
  "keeps_context (ArchitectureAgent_execute env a)"
  "keeps_context (ImplementationAgent_execute env a)"
  "keeps_context (OptimizationAgent_execute env a)"
  "keeps_context (ContentAgent_execute env a)"
  "keeps_context (ConsensusAgent_execute env a)"
  "keeps_context (ProceduralPuzzleAgent_execute env a)"
  "keeps_context (DynamicDifficultyAgent_execute env a)"
  "keeps_context (NarrativeAgent_execute env a)"
  "keeps_context (AssetOptimizationAgent_execute env a)"
  unfolding ArchitectureAgent_execute_def ImplementationAgent_execute_def
    OptimizationAgent_execute_def ContentAgent_execute_def ConsensusAgent_execute_def
    ProceduralPuzzleAgent_execute_def DynamicDifficultyAgent_execute_def
    NarrativeAgent_execute_def AssetOptimizationAgent_execute_def
  by (intro keeps)+

lemma agents_cases:
  "agents n = Some f \<Longrightarrow>
     f = ArchitectureAgent_execute \<or> f = ImplementationAgent_execute
   \<or> f = OptimizationAgent_execute \<or> f = ContentAgent_execute \<or> f = ConsensusAgent_execute
   \<or> f = ProceduralPuzzleAgent_execute \<or> f = DynamicDifficultyAgent_execute
   \<or> f = NarrativeAgent_execute \<or> f = AssetOptimizationAgent_execute"
  by (auto simp: agents_def split: if_splits)

lemma keeps_agent: "agents n = Some f \<Longrightarrow> keeps_context (f env a)"
  by (drule agents_cases) (auto intro: keeps_agents_execute)

lemma keeps_steps [keeps]:
  "keeps_context (execute_architecture_step env tasks ms)"
  "keeps_context (execute_content_step env tasks ms)"
  "keeps_context (execute_optimization_step env tasks ms)"
  "keeps_context (analyze_puzzle_theme env tasks)"
  "keeps_context (generate_puzzle_variations env tasks ms)"
  "keeps_context (balance_difficulty env tasks ms)"
  "keeps_context (integrate_narrative env tasks ms)"
  "keeps_context (develop_story env tasks ms)"
  "keeps_context (create_characters env tasks ms)"
  "keeps_context (write_scenes env tasks ms)"
  "keeps_context (generate_assets env tasks ms)"
  "keeps_context (analyze_performance env tasks ms)"
  "keeps_context (identify_bottlenecks env tasks ms)"
  "keeps_context (generate_optimizations env tasks ms)"
  "keeps_context (create_implementation_plan env tasks ms)"
  unfolding execute_architecture_step_def execute_content_step_def
    execute_optimization_step_def analyze_puzzle_theme_def generate_puzzle_variations_def
    balance_difficulty_def integrate_narrative_def develop_story_def create_characters_def
    write_scenes_def generate_assets_def analyze_performance_def identify_bottlenecks_def
    generate_optimizations_def create_implementation_plan_def
  by (intro keeps)+

lemma keeps_implementation_loop [keeps]:
  "keeps_context (implementation_loop env ms ts acc)"
  by (induction ts arbitrary: acc) (simp_all add: keeps)

lemma keeps_execute_implementation_step [keeps]:
  "keeps_context (execute_implementation_step env tasks ms)"
  unfolding execute_implementation_step_def by (intro keeps)

lemma keeps_append_step [keeps]:
  "keeps_context step \<Longrightarrow> keeps_context (append_step steps n step)"
  unfolding append_step_def by (intro keeps)

lemma keeps_named_workflows [keeps]:
  "keeps_context (execute_game_development_workflow env tasks p ms)"
  "keeps_context (execute_puzzle_generation_workflow env tasks p ms)"
  "keeps_context (execute_content_creation_workflow env tasks p ms)"
  "keeps_context (execute_optimization_workflow env tasks p ms)"
  unfolding execute_game_development_workflow_def execute_puzzle_generation_workflow_def
    execute_content_creation_workflow_def execute_optimization_workflow_def
  by (intro keeps)+

lemma keeps_execute_single_task [keeps]:
  "keeps_context (execute_single_task env task ms)"
proof (cases "dict_get task ''agent'' (dict_get task ''type'' PNone)")
  case (PStr n)
  show ?thesis
  proof (cases "agents n")
    case None
    with PStr show ?thesis by (simp add: execute_single_task_def keeps)
  next
    case (Some f)
    with PStr show ?thesis
      by (simp add: execute_single_task_def) (intro keeps keeps_agent [OF Some])
  qed
qed (simp_all add: execute_single_task_def keeps)

lemma keeps_D: "keeps_context m \<Longrightarrow> m s = (r, s') \<Longrightarrow> shared_context s' = shared_context s"
  by (auto simp: keeps_context_def dest: spec [of _ s])

lemma keeps_custom_sequential [keeps]:
  "keeps_context (custom_sequential env ms tasks steps)"
proof (induction tasks arbitrary: steps)
  case Nil
  show ?case by (simp add: keeps)
next
  case (Cons t tasks)
  show ?case
    unfolding keeps_context_def
  proof
    fix s
    obtain r s' where st: "execute_single_task env t ms s = (r, s')"
      by (cases "execute_single_task env t ms s")
    have c: "shared_context s' = shared_context s"
      by (rule keeps_D [OF keeps_execute_single_task st])
    have k: "\<And>st. shared_context (snd (custom_sequential env ms tasks st s')) = shared_context s'"
      using Cons.IH by (simp add: keeps_context_def)
    show "shared_context (snd (custom_sequential env ms (t # tasks) steps s)) = shared_context s"
      using st c k by (cases r) simp_all
  qed
qed

lemma set_completion_schedule: "set (completion_schedule n order) = {..<n}"
  by (auto simp: completion_schedule_def)

lemma distinct_completion_schedule: "distinct (completion_schedule n order)"
  by (auto simp: completion_schedule_def)

lemma start_all_context:
  "(\<And>c. c \<in> set coros \<Longrightarrow> keeps_context c) \<Longrightarrow>
   shared_context (snd (start_all coros acc s)) = shared_context s"
proof (induction coros arbitrary: acc s)
  case Nil
  show ?case by simp
next
  case (Cons c coros)
  obtain r s' where st: "c s = (r, s')" by (cases "c s")
  have "keeps_context c" by (rule Cons.prems) simp
  then have k: "shared_context s' = shared_context s"
    using st by (rule keeps_D)
  have "shared_context (snd (start_all coros (acc @ [r]) s')) = shared_context s'"
    by (rule Cons.IH) (simp add: Cons.prems)
  then show ?case using st k by simp
qed

lemma keeps_gather:
  assumes "\<And>c. c \<in> set coros \<Longrightarrow> keeps_context c"
  shows "keeps_context (gather env coros)"
  unfolding keeps_context_def
proof
  fix s
  have "shared_context (snd (start_all coros [] s)) = shared_context s"
    by (rule start_all_context) (rule assms)
  then show "shared_context (snd (gather env coros s)) = shared_context s"
    by (cases "start_all coros [] s") (simp add: gather_def)
qed

lemma keeps_execute_custom_workflow [keeps]:
  "keeps_context (execute_custom_workflow env tasks p ms)"
proof -
  have "keeps_context (gather env (map (\<lambda>task. execute_single_task env task ms) tasks))"
    by (rule keeps_gather) (auto simp: keeps)
  then show ?thesis
    unfolding execute_custom_workflow_def by (intro keeps)
qed

lemma keeps_execute: "keeps_context (execute env args)"
  unfolding execute_def Let_def by (intro keeps)

text \<open>
  Claim C9. A run leaves the shared context dictionary as it found it, for every
  workflow type, sequential or parallel, and whether the run returns a report or raises;
  so does every single step, among them \<open>_generate_puzzle_variations\<close>, which reads three
  context entries, and \<open>_execute_single_task\<close>. (The values read from the context reach
  the agents' prompt templates only, which return text.)
\<close>

theorem context_never_mutated:
  "shared_context (snd (execute env args s)) = shared_context s
   \<and> shared_context (snd (generate_puzzle_variations env tasks model_strategy s)) = shared_context s
   \<and> shared_context (snd (balance_difficulty env tasks model_strategy s)) = shared_context s
   \<and> shared_context (snd (execute_single_task env task model_strategy s)) = shared_context s"
  using keeps_execute [of env args] keeps_steps(5,6) [of env tasks model_strategy]
    keeps_execute_single_task [of env task model_strategy]
  by (simp add: keeps_context_def)

section \<open>The entry point rejects an unknown workflow type\<close>

text \<open>
  Claim C7. A workflow type that is none of the five makes \<open>execute\<close> raise
  \<open>ToolExecutionError("Unknown workflow type: ...")\<close>. Nothing has run by then: the
  state is the one the call started from (no provider round-trip is logged), and the
  outcome is the exception, not a report.
\<close>

theorem unknown_workflow_type:
  "arg_workflow_type args \<noteq> ''game_development'' \<Longrightarrow>
   arg_workflow_type args \<noteq> ''puzzle_generation'' \<Longrightarrow>
   arg_workflow_type args \<noteq> ''content_creation'' \<Longrightarrow>
   arg_workflow_type args \<noteq> ''optimization'' \<Longrightarrow>
   arg_workflow_type args \<noteq> ''custom'' \<Longrightarrow>
   execute env args s =
     (Inl (ToolExecutionError (''Unknown workflow type: '' @ arg_workflow_type args)), s)"
  by (simp add: execute_def Let_def bindM_def raiseM_def)

theorem unknown_workflow_type_witness:
  "execute demo_env
     \<lparr> arg_workflow_type = ''nonsense'', arg_tasks = [], arg_parallel = None,
       arg_model_strategy = None \<rparr> empty_state
   = (Inl (ToolExecutionError ''Unknown workflow type: nonsense''), empty_state)"
  using unknown_workflow_type [of "\<lparr> arg_workflow_type = ''nonsense'', arg_tasks = [], arg_parallel = None,
       arg_model_strategy = None \<rparr>" demo_env empty_state]
  by simp

section \<open>Which tasks a step of a named workflow runs\<close>



















lemmas agent_defs =
  ArchitectureAgent_execute_def ImplementationAgent_execute_def OptimizationAgent_execute_def
  ContentAgent_execute_def ProceduralPuzzleAgent_execute_def DynamicDifficultyAgent_execute_def
  NarrativeAgent_execute_def AssetOptimizationAgent_execute_def execute_with_model_def
  first_text_def dict_index_def dict_get_def

lemmas monad_defs = bindM_def returnM_def raiseM_def liftM_def

lemmas demo_defs = demo_env_def demo_provider_def demo_build_context_def empty_state_def

lemma demo_architecture_one:
  "execute_architecture_step demo_env
     [[''type'' \<mapsto> PStr ''architecture'', ''prompt'' \<mapsto> PStr ''a'']] ''auto'' empty_state
   = (Inr ''reply to a'',
      \<lparr> shared_context = Map.empty,
        provider_calls = [(PStr ''gemini-pro'', ''a'', PStr ''high'')] \<rparr>)"
  by (simp add: execute_architecture_step_def next_task_def task_type_is_def agent_defs
        monad_defs demo_defs select_model_def base_model_def model_map_def)

lemma demo_implementation_one:
  "execute_implementation_step demo_env
     [[''type'' \<mapsto> PStr ''implementation'', ''prompt'' \<mapsto> PStr p]] ''auto'' s
   = (if p = ''boom'' then (Inl (ToolExecutionError ''Failed to execute with model gemini-flash: provider unavailable''),
         s\<lparr>provider_calls := provider_calls s @ [(PStr ''gemini-flash'', p, PStr ''medium'')]\<rparr>)
      else (Inr (''reply to '' @ p),
      s\<lparr>provider_calls := provider_calls s @ [(PStr ''gemini-flash'', p, PStr ''medium'')]\<rparr>))"
  by (simp add: execute_implementation_step_def task_type_is_def agent_defs
        monad_defs demo_defs select_model_def base_model_def model_map_def py_str_def)






section \<open>The consensus workflow\<close>

lemma collect_responses_skip:
  "get_provider_for_model env m = None \<Longrightarrow>
   collect_responses env prompt files models tm (pre @ m # post) acc =
   collect_responses env prompt files models tm (pre @ post) acc"
proof (induction pre arbitrary: acc)
  case Nil
  then show ?case by simp
next
  case (Cons a pre)
  show ?case
    by (cases "get_provider_for_model env a") (simp_all add: Cons.IH [OF Cons.prems])
qed

lemma collect_responses_none:
  "\<forall>m \<in> set ms. get_provider_for_model env m = None \<Longrightarrow>
   collect_responses env prompt files models tm ms acc = returnM acc"
  by (induction ms) simp_all

lemma consensus_all_unresolvable:
  assumes "\<forall>m \<in> set ms. get_provider_for_model env m = None"
  shows "execute_consensus_workflow env prompt files (PList ms) tm s =
    (Inr (''## CONSENSUS ANALYSIS\<newline>\<newline>''
          @ ''## SYNTHESIS AND RECOMMENDATIONS\<newline>\<newline>''
          @ ''Based on the multiple model analyses, here are the key consensus points:\<newline>\<newline>''
          @ ''1. **Common Recommendations**\<newline>''
          @ ''2. **Areas of Agreement**\<newline>''
          @ ''3. **Divergent Opinions**\<newline>''
          @ ''4. **Final Recommendations**\<newline>\<newline>''), s)"
  by (simp add: execute_consensus_workflow_def py_iter_def collect_responses_none [OF assms]
        analyze_consensus_def bindM_def returnM_def liftM_def)

lemma collect_responses_fails:
  assumes "m \<in> set ms" and "get_provider_for_model env m = Some p"
    and "build_context env ''consensus'' [prompt, files, models] = Inr c"
    and "p c m tm = Inl e"
  shows "\<exists>e' s'. collect_responses env prompt files models tm ms acc s = (Inl e', s')"
  using assms(1)
proof (induction ms arbitrary: acc s)
  case Nil
  then show ?case by simp
next
  case (Cons a ms)
  show ?case
  proof (cases "a = m")
    case True
    then show ?thesis using assms(2-4)
      by (simp add: bindM_def liftM_def)
  next
    case False
    with Cons.prems have mem: "m \<in> set ms" by simp
    show ?thesis
    proof (cases "get_provider_for_model env a")
      case None
      then show ?thesis using Cons.IH [OF mem] by simp
    next
      case (Some q)
      show ?thesis
      proof (cases "q c a tm")
        case (Inl e1)
        with Some assms(3) show ?thesis by (simp add: bindM_def liftM_def)
      next
        case (Inr content)
        with Some assms(3) Cons.IH [OF mem] show ?thesis by (simp add: bindM_def liftM_def)
      qed
    qed
  qed
qed

lemma consensus_fails:
  assumes "m \<in> set ms" and "get_provider_for_model env m = Some p"
    and "build_context env ''consensus'' [prompt, files, PList ms] = Inr c"
    and "p c m tm = Inl e"
  shows "\<exists>msg s'. execute_consensus_workflow env prompt files (PList ms) tm s =
           (Inl (ToolExecutionError (''Consensus workflow failed: '' @ msg)), s')"
proof -
  obtain e' s' where "collect_responses env prompt files (PList ms) tm ms [] s = (Inl e', s')"
    using collect_responses_fails [OF assms] by blast
  then show ?thesis
    by (simp add: execute_consensus_workflow_def py_iter_def bindM_def liftM_def)
qed

lemma collect_responses_answers:
  assumes b: "build_context env ''consensus'' [prompt, files, models] = Inr c"
  shows "map fst answers = filter (\<lambda>n. get_provider_for_model env (PStr n) \<noteq> None) names \<Longrightarrow>
    \<forall>(n, r) \<in> set answers. \<exists>p. get_provider_for_model env (PStr n) = Some p \<and> p c (PStr n) tm = Inr r \<Longrightarrow>
    collect_responses env prompt files models tm (map PStr names) acc s =
      (Inr (acc @ map (\<lambda>(n, r). (PStr n, r)) answers),
       s\<lparr>provider_calls := provider_calls s @ map (\<lambda>(n, r). (PStr n, c, tm)) answers\<rparr>)"
proof (induction names arbitrary: answers acc s)
  case Nil
  then show ?case by (simp add: returnM_def)
next
  case (Cons n names)
  show ?case
  proof (cases "get_provider_for_model env (PStr n)")
    case None
    with Cons.prems have "map fst answers = filter (\<lambda>n. get_provider_for_model env (PStr n) \<noteq> None) names"
      by simp
    from Cons.IH [OF this Cons.prems(2)] None show ?thesis by simp
  next
    case (Some p)
    with Cons.prems(1) obtain a answers' where
      answers: "answers = a # answers'" and a: "fst a = n"
      and rest: "map fst answers' = filter (\<lambda>n. get_provider_for_model env (PStr n) \<noteq> None) names"
      by (cases answers) auto
    obtain r where ar: "a = (n, r)" using a by (cases a) simp
    from Cons.prems(2) answers ar Some have call: "p c (PStr n) tm = Inr r" by auto
    from Cons.prems(2) answers have all':
      "\<forall>(n, r) \<in> set answers'. \<exists>p. get_provider_for_model env (PStr n) = Some p \<and> p c (PStr n) tm = Inr r"
      by simp
    show ?thesis
      using Some b call
      by (simp add: bindM_def liftM_def Cons.IH [OF rest all'] answers ar)
  qed
qed

lemma analyze_responses_text:
  "analyze_responses env (map (\<lambda>(n, r). (PStr n, r)) answers) acc =
     Inr (acc @ concat (map (\<lambda>(n, r). ''### '' @ py_upper env n @ '' Analysis:\<newline>'' @ r @ ''\<newline>\<newline>'') answers))"
proof (induction answers arbitrary: acc)
  case Nil
  show ?case by simp
next
  case (Cons a answers)
  obtain n r where a: "a = (n, r)" by (cases a)
  show ?case unfolding a by (simp add: Cons.IH)
qed

lemma consensus_answers:
  assumes "build_context env ''consensus'' [prompt, files, PList (map PStr names)] = Inr c"
    and "map fst answers = filter (\<lambda>n. get_provider_for_model env (PStr n) \<noteq> None) names"
    and "\<forall>(n, r) \<in> set answers. \<exists>p. get_provider_for_model env (PStr n) = Some p \<and> p c (PStr n) tm = Inr r"
  shows "execute_consensus_workflow env prompt files (PList (map PStr names)) tm s =
    (Inr (''## CONSENSUS ANALYSIS\<newline>\<newline>''
          @ concat (map (\<lambda>(n, r). ''### '' @ py_upper env n @ '' Analysis:\<newline>'' @ r @ ''\<newline>\<newline>'') answers)
          @ ''## SYNTHESIS AND RECOMMENDATIONS\<newline>\<newline>''
          @ ''Based on the multiple model analyses, here are the key consensus points:\<newline>\<newline>''
          @ ''1. **Common Recommendations**\<newline>''
          @ ''2. **Areas of Agreement**\<newline>''
          @ ''3. **Divergent Opinions**\<newline>''
          @ ''4. **Final Recommendations**\<newline>\<newline>''),
     s\<lparr>provider_calls := provider_calls s @ map (\<lambda>(n, r). (PStr n, c, tm)) answers\<rparr>)"
  using collect_responses_answers [OF assms, of "[]" s]
  by (simp add: execute_consensus_workflow_def py_iter_def bindM_def liftM_def
        analyze_consensus_def analyze_responses_text)

lemma collect_responses_builder_fails:
  assumes "build_context env ''consensus'' [prompt, files, models] = Inl e"
  shows "m \<in> set ms \<Longrightarrow> get_provider_for_model env m = Some p \<Longrightarrow>
    collect_responses env prompt files models tm ms acc s = (Inl e, s)"
proof (induction ms)
  case Nil
  then show ?case by simp
next
  case (Cons a ms)
  show ?case
  proof (cases "get_provider_for_model env a")
    case None
    with Cons.prems have "m \<in> set ms" by auto
    from Cons.IH [OF this Cons.prems(2)] None show ?thesis by simp
  next
    case (Some q)
    with assms show ?thesis by (simp add: bindM_def liftM_def)
  qed
qed

lemma consensus_builder_fails:
  assumes "build_context env ''consensus'' [prompt, files, PList ms] = Inl e"
    and "m \<in> set ms" and "get_provider_for_model env m = Some p"
  shows "execute_consensus_workflow env prompt files (PList ms) tm s =
    (Inl (ToolExecutionError (''Consensus workflow failed: '' @ exn_str e)), s)"
  using collect_responses_builder_fails [OF assms, of tm "[]" s]
  by (simp add: execute_consensus_workflow_def py_iter_def bindM_def liftM_def)

text \<open>
  Claim C6, as amended. In the loop over the models, a model with no provider is passed
  over: the loop does the same with it as without it. When no model of the list has a
  provider, the consensus workflow returns the heading and the fixed synthesis section,
  with no per-model section, and makes no provider call. On a list of model names of which
  some have a provider and the others none, and whose providers all answer, the workflow
  returns the heading, one section per model that has a provider, in list order, and the
  synthesis section; it calls those providers only, and nothing in the text or in the
  outcome tells of a model that was passed over. When a model of the list has a provider
  and that provider fails on the consensus prompt, or the prompt cannot be built, the
  consensus workflow as a whole fails with
  \<open>ToolExecutionError("Consensus workflow failed: ...")\<close>: the \<open>try\<close> encloses the whole
  loop.
\<close>

theorem consensus_skips_unresolvable:
  "(get_provider_for_model env m = None \<longrightarrow>
      collect_responses env prompt files models thinking_mode (pre @ m # post) responses =
      collect_responses env prompt files models thinking_mode (pre @ post) responses)
   \<and> ((\<forall>m \<in> set ms. get_provider_for_model env m = None) \<longrightarrow>
      execute_consensus_workflow env prompt files (PList ms) thinking_mode s =
        (Inr (''## CONSENSUS ANALYSIS\<newline>\<newline>''
              @ ''## SYNTHESIS AND RECOMMENDATIONS\<newline>\<newline>''
              @ ''Based on the multiple model analyses, here are the key consensus points:\<newline>\<newline>''
              @ ''1. **Common Recommendations**\<newline>''
              @ ''2. **Areas of Agreement**\<newline>''
              @ ''3. **Divergent Opinions**\<newline>''
              @ ''4. **Final Recommendations**\<newline>\<newline>''), s))
   \<and> (m' \<in> set ms \<and> get_provider_for_model env m' = Some provider
        \<and> build_context env ''consensus'' [prompt, files, PList ms] = Inr prompt_text
        \<and> provider prompt_text m' thinking_mode = Inl e \<longrightarrow>
      (\<exists>msg s'. execute_consensus_workflow env prompt files (PList ms) thinking_mode s =
           (Inl (ToolExecutionError (''Consensus workflow failed: '' @ msg)), s')))
   \<and> (build_context env ''consensus'' [prompt, files, PList (map PStr names)] = Inr rendered
        \<and> map fst answers = filter (\<lambda>n. get_provider_for_model env (PStr n) \<noteq> None) names
        \<and> (\<forall>(n, r) \<in> set answers. \<exists>p. get_provider_for_model env (PStr n) = Some p
               \<and> p rendered (PStr n) thinking_mode = Inr r) \<longrightarrow>
      execute_consensus_workflow env prompt files (PList (map PStr names)) thinking_mode s =
        (Inr (''## CONSENSUS ANALYSIS\<newline>\<newline>''
              @ concat (map (\<lambda>(n, r). ''### '' @ py_upper env n @ '' Analysis:\<newline>''
                                         @ r @ ''\<newline>\<newline>'') answers)
              @ ''## SYNTHESIS AND RECOMMENDATIONS\<newline>\<newline>''
              @ ''Based on the multiple model analyses, here are the key consensus points:\<newline>\<newline>''
              @ ''1. **Common Recommendations**\<newline>''
              @ ''2. **Areas of Agreement**\<newline>''
              @ ''3. **Divergent Opinions**\<newline>''
              @ ''4. **Final Recommendations**\<newline>\<newline>''),
         s\<lparr>provider_calls := provider_calls s
              @ map (\<lambda>(n, r). (PStr n, rendered, thinking_mode)) answers\<rparr>))
   \<and> (m' \<in> set ms \<and> get_provider_for_model env m' = Some provider
        \<and> build_context env ''consensus'' [prompt, files, PList ms] = Inl e' \<longrightarrow>
      execute_consensus_workflow env prompt files (PList ms) thinking_mode s =
        (Inl (ToolExecutionError (''Consensus workflow failed: '' @ exn_str e')), s))"
proof (intro conjI impI)
  assume "get_provider_for_model env m = None"
  then show "collect_responses env prompt files models thinking_mode (pre @ m # post) responses =
      collect_responses env prompt files models thinking_mode (pre @ post) responses"
    by (rule collect_responses_skip)
next
  assume "\<forall>m \<in> set ms. get_provider_for_model env m = None"
  then show "execute_consensus_workflow env prompt files (PList ms) thinking_mode s =
        (Inr (''## CONSENSUS ANALYSIS\<newline>\<newline>''
              @ ''## SYNTHESIS AND RECOMMENDATIONS\<newline>\<newline>''
              @ ''Based on the multiple model analyses, here are the key consensus points:\<newline>\<newline>''
              @ ''1. **Common Recommendations**\<newline>''
              @ ''2. **Areas of Agreement**\<newline>''
              @ ''3. **Divergent Opinions**\<newline>''
              @ ''4. **Final Recommendations**\<newline>\<newline>''), s)"
    by (rule consensus_all_unresolvable)
next
  assume "m' \<in> set ms \<and> get_provider_for_model env m' = Some provider
        \<and> build_context env ''consensus'' [prompt, files, PList ms] = Inr prompt_text
        \<and> provider prompt_text m' thinking_mode = Inl e"
  then show "\<exists>msg s'. execute_consensus_workflow env prompt files (PList ms) thinking_mode s =
           (Inl (ToolExecutionError (''Consensus workflow failed: '' @ msg)), s')"
    using consensus_fails [of m' ms env provider prompt files prompt_text thinking_mode e s]
    by blast
next
  assume a: "build_context env ''consensus'' [prompt, files, PList (map PStr names)] = Inr rendered
        \<and> map fst answers = filter (\<lambda>n. get_provider_for_model env (PStr n) \<noteq> None) names
        \<and> (\<forall>(n, r) \<in> set answers. \<exists>p. get_provider_for_model env (PStr n) = Some p
               \<and> p rendered (PStr n) thinking_mode = Inr r)"
  show "execute_consensus_workflow env prompt files (PList (map PStr names)) thinking_mode s =
        (Inr (''## CONSENSUS ANALYSIS\<newline>\<newline>''
              @ concat (map (\<lambda>(n, r). ''### '' @ py_upper env n @ '' Analysis:\<newline>''
                                         @ r @ ''\<newline>\<newline>'') answers)
              @ ''## SYNTHESIS AND RECOMMENDATIONS\<newline>\<newline>''
              @ ''Based on the multiple model analyses, here are the key consensus points:\<newline>\<newline>''
              @ ''1. **Common Recommendations**\<newline>''
              @ ''2. **Areas of Agreement**\<newline>''
              @ ''3. **Divergent Opinions**\<newline>''
              @ ''4. **Final Recommendations**\<newline>\<newline>''),
         s\<lparr>provider_calls := provider_calls s
              @ map (\<lambda>(n, r). (PStr n, rendered, thinking_mode)) answers\<rparr>)"
    by (rule consensus_answers) (simp_all add: a)
next
  assume "m' \<in> set ms \<and> get_provider_for_model env m' = Some provider
        \<and> build_context env ''consensus'' [prompt, files, PList ms] = Inl e'"
  then show "execute_consensus_workflow env prompt files (PList ms) thinking_mode s =
        (Inl (ToolExecutionError (''Consensus workflow failed: '' @ exn_str e')), s)"
    using consensus_builder_fails [of env prompt files ms e' m' provider thinking_mode s]
    by blast
qed

text \<open>
  Claim C6 as stated fails: with one model, whose provider fails, the consensus workflow
  raises instead of returning the synthesis text.
\<close>

theorem consensus_failure_counterexample:
  "execute_consensus_workflow demo_env (PStr ''boom'') (PList []) (PList [PStr ''gemini-pro''])
     (PStr ''high'') empty_state
   = (Inl (ToolExecutionError ''Consensus workflow failed: provider unavailable''),
      \<lparr> shared_context = Map.empty,
        provider_calls = [(PStr ''gemini-pro'', ''boom'', PStr ''high'')] \<rparr>)"
  by (simp add: execute_consensus_workflow_def py_iter_def monad_defs demo_defs)

theorem consensus_skips_unresolvable_witness:
  "get_provider_for_model demo_env (PStr ''gpt-5'') = None
   \<and> collect_responses demo_env (PStr ''q'') (PList []) (PList [PStr ''gemini-pro'', PStr ''gpt-5''])
         (PStr ''high'') [PStr ''gemini-pro'', PStr ''gpt-5''] []
     = collect_responses demo_env (PStr ''q'') (PList []) (PList [PStr ''gemini-pro'', PStr ''gpt-5''])
         (PStr ''high'') [PStr ''gemini-pro''] []
   \<and> execute_consensus_workflow demo_env (PStr ''q'') (PList [])
         (PList [PStr ''gpt-5'', PStr ''mystery'']) (PStr ''high'') empty_state
     = (Inr (''## CONSENSUS ANALYSIS\<newline>\<newline>''
              @ ''## SYNTHESIS AND RECOMMENDATIONS\<newline>\<newline>''
              @ ''Based on the multiple model analyses, here are the key consensus points:\<newline>\<newline>''
              @ ''1. **Common Recommendations**\<newline>''
              @ ''2. **Areas of Agreement**\<newline>''
              @ ''3. **Divergent Opinions**\<newline>''
              @ ''4. **Final Recommendations**\<newline>\<newline>''), empty_state)
   \<and> (\<exists>msg s'. execute_consensus_workflow demo_env (PStr ''boom'') (PList [])
         (PList [PStr ''gpt-5'', PStr ''gemini-pro'']) (PStr ''high'') empty_state
       = (Inl (ToolExecutionError (''Consensus workflow failed: '' @ msg)), s'))
   \<and> execute_consensus_workflow demo_env (PStr ''q'') (PList [])
         (PList [PStr ''gemini-pro'', PStr ''gpt-5'', PStr ''claude-haiku'']) (PStr ''high'') empty_state
     = (Inr (''## CONSENSUS ANALYSIS\<newline>\<newline>''
              @ ''### GEMINI-PRO Analysis:\<newline>'' @ ''reply to q\<newline>\<newline>''
              @ ''### CLAUDE-HAIKU Analysis:\<newline>'' @ ''reply to q\<newline>\<newline>''
              @ ''## SYNTHESIS AND RECOMMENDATIONS\<newline>\<newline>''
              @ ''Based on the multiple model analyses, here are the key consensus points:\<newline>\<newline>''
              @ ''1. **Common Recommendations**\<newline>''
              @ ''2. **Areas of Agreement**\<newline>''
              @ ''3. **Divergent Opinions**\<newline>''
              @ ''4. **Final Recommendations**\<newline>\<newline>''),
        \<lparr> shared_context = Map.empty,
          provider_calls = [(PStr ''gemini-pro'', ''q'', PStr ''high''),
                            (PStr ''claude-haiku'', ''q'', PStr ''high'')] \<rparr>)
   \<and> execute_consensus_workflow
         (demo_env\<lparr>build_context := (\<lambda>template args. Inl (TypeError ''expected str instance''))\<rparr>)
         (PStr ''q'') (PList []) (PList [PStr ''gpt-5'', PStr ''gemini-pro'']) (PStr ''high'') empty_state
     = (Inl (ToolExecutionError ''Consensus workflow failed: expected str instance''), empty_state)"
proof -
  have n1: "get_provider_for_model demo_env (PStr ''gpt-5'') = None"
    and n2: "\<forall>m \<in> set [PStr ''gpt-5'', PStr ''mystery'']. get_provider_for_model demo_env m = None"
    and p: "get_provider_for_model demo_env (PStr ''gemini-pro'') = Some demo_provider"
    and b: "build_context demo_env ''consensus''
              [PStr ''boom'', PList [], PList [PStr ''gpt-5'', PStr ''gemini-pro'']] = Inr ''boom''"
    and f: "demo_provider ''boom'' (PStr ''gemini-pro'') (PStr ''high'')
              = Inl (ProviderError ''provider unavailable'')"
    by (simp_all add: demo_defs)
  have skip: "collect_responses demo_env (PStr ''q'') (PList []) (PList [PStr ''gemini-pro'', PStr ''gpt-5''])
         (PStr ''high'') ([PStr ''gemini-pro''] @ PStr ''gpt-5'' # []) []
     = collect_responses demo_env (PStr ''q'') (PList []) (PList [PStr ''gemini-pro'', PStr ''gpt-5''])
         (PStr ''high'') ([PStr ''gemini-pro''] @ []) []"
    using consensus_skips_unresolvable [where env = demo_env and m = "PStr ''gpt-5''"
        and prompt = "PStr ''q''" and files = "PList []"
        and models = "PList [PStr ''gemini-pro'', PStr ''gpt-5'']"
        and thinking_mode = "PStr ''high''" and pre = "[PStr ''gemini-pro'']" and post = "[]"
        and responses = "[]"] n1
    by blast
  have none: "execute_consensus_workflow demo_env (PStr ''q'') (PList [])
         (PList [PStr ''gpt-5'', PStr ''mystery'']) (PStr ''high'') empty_state
     = (Inr (''## CONSENSUS ANALYSIS\<newline>\<newline>''
              @ ''## SYNTHESIS AND RECOMMENDATIONS\<newline>\<newline>''
              @ ''Based on the multiple model analyses, here are the key consensus points:\<newline>\<newline>''
              @ ''1. **Common Recommendations**\<newline>''
              @ ''2. **Areas of Agreement**\<newline>''
              @ ''3. **Divergent Opinions**\<newline>''
              @ ''4. **Final Recommendations**\<newline>\<newline>''), empty_state)"
    using consensus_skips_unresolvable [where env = demo_env
        and ms = "[PStr ''gpt-5'', PStr ''mystery'']" and prompt = "PStr ''q''"
        and files = "PList []" and thinking_mode = "PStr ''high''" and s = empty_state] n2
    by blast
  have fail: "\<exists>msg s'. execute_consensus_workflow demo_env (PStr ''boom'') (PList [])
         (PList [PStr ''gpt-5'', PStr ''gemini-pro'']) (PStr ''high'') empty_state
       = (Inl (ToolExecutionError (''Consensus workflow failed: '' @ msg)), s')"
    using consensus_skips_unresolvable [where env = demo_env
        and ms = "[PStr ''gpt-5'', PStr ''gemini-pro'']" and prompt = "PStr ''boom''"
        and files = "PList []" and thinking_mode = "PStr ''high''" and s = empty_state
        and m' = "PStr ''gemini-pro''" and provider = demo_provider and prompt_text = "''boom''"
        and e = "ProviderError ''provider unavailable''"] p b f
    by simp
  have b4: "build_context demo_env ''consensus''
              [PStr ''q'', PList [], PList (map PStr [''gemini-pro'', ''gpt-5'', ''claude-haiku''])] = Inr ''q''"
    by (simp add: demo_defs)
  have f4: "map fst [(''gemini-pro'', ''reply to q''), (''claude-haiku'', ''reply to q'')]
      = filter (\<lambda>n. get_provider_for_model demo_env (PStr n) \<noteq> None)
          [''gemini-pro'', ''gpt-5'', ''claude-haiku'']"
    by (simp add: demo_defs)
  have a4: "\<forall>(n, r) \<in> set [(''gemini-pro'', ''reply to q''), (''claude-haiku'', ''reply to q'')].
      \<exists>p. get_provider_for_model demo_env (PStr n) = Some p \<and> p ''q'' (PStr n) (PStr ''high'') = Inr r"
    by (simp add: demo_defs)
  have mixed: "execute_consensus_workflow demo_env (PStr ''q'') (PList [])
         (PList [PStr ''gemini-pro'', PStr ''gpt-5'', PStr ''claude-haiku'']) (PStr ''high'') empty_state
     = (Inr (''## CONSENSUS ANALYSIS\<newline>\<newline>''
              @ ''### GEMINI-PRO Analysis:\<newline>'' @ ''reply to q\<newline>\<newline>''
              @ ''### CLAUDE-HAIKU Analysis:\<newline>'' @ ''reply to q\<newline>\<newline>''
              @ ''## SYNTHESIS AND RECOMMENDATIONS\<newline>\<newline>''
              @ ''Based on the multiple model analyses, here are the key consensus points:\<newline>\<newline>''
              @ ''1. **Common Recommendations**\<newline>''
              @ ''2. **Areas of Agreement**\<newline>''
              @ ''3. **Divergent Opinions**\<newline>''
              @ ''4. **Final Recommendations**\<newline>\<newline>''),
        \<lparr> shared_context = Map.empty,
          provider_calls = [(PStr ''gemini-pro'', ''q'', PStr ''high''),
                            (PStr ''claude-haiku'', ''q'', PStr ''high'')] \<rparr>)"
    using consensus_skips_unresolvable [where env = demo_env
        and names = "[''gemini-pro'', ''gpt-5'', ''claude-haiku'']" and prompt = "PStr ''q''"
        and files = "PList []" and thinking_mode = "PStr ''high''" and s = empty_state
        and rendered = "''q''"
        and answers = "[(''gemini-pro'', ''reply to q''), (''claude-haiku'', ''reply to q'')]",
        THEN conjunct2, THEN conjunct2, THEN conjunct2, THEN conjunct1] b4 f4 a4
    by (simp add: demo_env_def ascii_upper_def empty_state_def)
  have bfail: "execute_consensus_workflow
         (demo_env\<lparr>build_context := (\<lambda>template args. Inl (TypeError ''expected str instance''))\<rparr>)
         (PStr ''q'') (PList []) (PList [PStr ''gpt-5'', PStr ''gemini-pro'']) (PStr ''high'') empty_state
     = (Inl (ToolExecutionError ''Consensus workflow failed: expected str instance''), empty_state)"
    using consensus_skips_unresolvable
       [where env = "demo_env\<lparr>build_context := (\<lambda>template args. Inl (TypeError ''expected str instance''))\<rparr>"
        and ms = "[PStr ''gpt-5'', PStr ''gemini-pro'']" and prompt = "PStr ''q''"
        and files = "PList []" and thinking_mode = "PStr ''high''" and s = empty_state
        and m' = "PStr ''gemini-pro''" and provider = demo_provider
        and e' = "TypeError ''expected str instance''",
        THEN conjunct2, THEN conjunct2, THEN conjunct2, THEN conjunct2] p
    by (simp add: demo_env_def)
  from n1 skip none fail mixed bfail show ?thesis by simp
qed

section \<open>The custom workflow isolates the failure of a task\<close>

named_theorems sl

lemma stateless_returnM [sl]: "stateless (returnM x)"
  by (simp add: stateless_def returnM_def)

lemma stateless_raiseM [sl]: "stateless (raiseM e)"
  by (simp add: stateless_def raiseM_def)

lemma stateless_liftM [sl]: "stateless (liftM r)"
  by (simp add: stateless_def liftM_def)

lemma stateless_bindM [sl]:
  assumes "stateless m" and "\<And>x. stateless (f x)"
  shows "stateless (bindM m f)"
  unfolding stateless_def
proof (intro allI)
  fix s t
  obtain r s' where ms: "m s = (r, s')" by (cases "m s")
  obtain r' t' where mt: "m t = (r', t')" by (cases "m t")
  have "fst (m s) = fst (m t)" using assms(1) unfolding stateless_def by blast
  then have eq: "r' = r" using ms mt by simp
  show "fst (bindM m f s) = fst (bindM m f t)"
  proof (cases r)
    case (Inl e)
    with ms mt eq show ?thesis by (simp add: bindM_def)
  next
    case (Inr x)
    have "fst (f x s') = fst (f x t')" using assms(2) [of x] by (simp add: stateless_def)
    with ms mt eq Inr show ?thesis by (simp add: bindM_def)
  qed
qed

lemma stateless_execute_with_model [sl]: "stateless (execute_with_model env model c tm)"
  by (simp add: stateless_def execute_with_model_def split: option.splits sum.splits)

lemma stateless_provider_call:
  "stateless (\<lambda>s. (r, s\<lparr>provider_calls := provider_calls s @ [c]\<rparr>))"
  by (simp add: stateless_def)

lemma stateless_collect_responses [sl]:
  "stateless (collect_responses env prompt files models tm ms acc)"
proof (induction ms arbitrary: acc)
  case Nil
  show ?case by (simp add: sl)
next
  case (Cons m ms)
  show ?case
    by (cases "get_provider_for_model env m")
       (simp_all add: Cons.IH sl stateless_provider_call)
qed

lemma stateless_try:
  assumes "stateless m"
  shows "stateless (\<lambda>s. case m s of (Inl e, s') \<Rightarrow> (Inl (h e), s') | (Inr x, s') \<Rightarrow> (Inr x, s'))"
  unfolding stateless_def
proof (intro allI)
  fix s t
  obtain r s' where ms: "m s = (r, s')" by (cases "m s")
  obtain r' t' where mt: "m t = (r', t')" by (cases "m t")
  have "fst (m s) = fst (m t)" using assms unfolding stateless_def by blast
  then have eq: "r' = r" using ms mt by simp
  show "fst (case m s of (Inl e, s') \<Rightarrow> (Inl (h e), s') | (Inr x, s') \<Rightarrow> (Inr x, s')) =
        fst (case m t of (Inl e, s') \<Rightarrow> (Inl (h e), s') | (Inr x, s') \<Rightarrow> (Inr x, s'))"
    using ms mt eq by (cases r) simp_all
qed

lemma stateless_execute_consensus_workflow [sl]:
  "stateless (execute_consensus_workflow env prompt files models tm)"
  unfolding execute_consensus_workflow_def
  by (rule stateless_try) (intro sl)

lemma stateless_agents_execute [sl]:
  "stateless (ArchitectureAgent_execute env a)"
  "stateless (ImplementationAgent_execute env a)"
  "stateless (OptimizationAgent_execute env a)"
  "stateless (ContentAgent_execute env a)"
  "stateless (ConsensusAgent_execute env a)"
  "stateless (ProceduralPuzzleAgent_execute env a)"
  "stateless (DynamicDifficultyAgent_execute env a)"
  "stateless (NarrativeAgent_execute env a)"
  "stateless (AssetOptimizationAgent_execute env a)"
  unfolding ArchitectureAgent_execute_def ImplementationAgent_execute_def
    OptimizationAgent_execute_def ContentAgent_execute_def ConsensusAgent_execute_def
    ProceduralPuzzleAgent_execute_def DynamicDifficultyAgent_execute_def
    NarrativeAgent_execute_def AssetOptimizationAgent_execute_def
  by (intro sl)+

lemma stateless_agent: "agents n = Some f \<Longrightarrow> stateless (f env a)"
  by (drule agents_cases) (auto intro: stateless_agents_execute)

lemma stateless_execute_single_task [sl]:
  "stateless (execute_single_task env task ms)"
proof (cases "dict_get task ''agent'' (dict_get task ''type'' PNone)")
  case (PStr n)
  show ?thesis
  proof (cases "agents n")
    case None
    with PStr show ?thesis by (simp add: execute_single_task_def sl)
  next
    case (Some f)
    with PStr show ?thesis
      by (simp add: execute_single_task_def) (intro sl stateless_agent [OF Some])
  qed
qed (simp_all add: execute_single_task_def sl)

lemma stateless_D:
  assumes "stateless m" and "m s = (r, s')"
  shows "fst (m t) = r"
proof -
  have "fst (m t) = fst (m s)" using assms(1) unfolding stateless_def by blast
  with assms(2) show ?thesis by simp
qed

text \<open>The sequential branch records one step per task, in task order.\<close>

lemma custom_sequential_steps:
  "\<exists>s'. custom_sequential env ms tasks acc s =
     (Inr (acc @ map (\<lambda>task. (dict_get task ''name'' (PStr ''Task''),
                               outcome_text (fst (execute_single_task env task ms s0)))) tasks), s')"
proof (induction tasks arbitrary: acc s)
  case Nil
  show ?case by (simp add: returnM_def)
next
  case (Cons t tasks)
  obtain r s1 where st: "execute_single_task env t ms s = (r, s1)"
    by (cases "execute_single_task env t ms s")
  have r: "fst (execute_single_task env t ms s0) = r"
    by (rule stateless_D [OF stateless_execute_single_task st])
  show ?case
  proof (cases r)
    case (Inl e)
    from Cons.IH [of "acc @ [(dict_get t ''name'' (PStr ''Task''), ''Error: '' @ exn_str e)]" s1]
    show ?thesis using st r Inl by (simp add: outcome_text_def)
  next
    case (Inr x)
    from Cons.IH [of "acc @ [(dict_get t ''name'' (PStr ''Task''), x)]" s1]
    show ?thesis using st r Inr by (simp add: outcome_text_def)
  qed
qed

text \<open>
  The parallel branch: whatever the completion order, \<open>gather\<close> hands back one outcome per
  coroutine, in the order of the coroutines.
\<close>

lemma start_all_results:
  "(\<And>c. c \<in> set coros \<Longrightarrow> stateless c) \<Longrightarrow>
   fst (start_all coros acc s) = acc @ map (\<lambda>c. fst (c s0)) coros"
proof (induction coros arbitrary: acc s)
  case Nil
  show ?case by simp
next
  case (Cons c coros)
  obtain r s' where st: "c s = (r, s')" by (cases "c s")
  have "stateless c" by (rule Cons.prems) simp
  then have r: "fst (c s0) = r"
    using st by (rule stateless_D)
  have "fst (start_all coros (acc @ [r]) s') = (acc @ [r]) @ map (\<lambda>c. fst (c s0)) coros"
    by (rule Cons.IH) (simp add: Cons.prems)
  then show ?case using st r by simp
qed

lemma mset_completion_schedule: "mset (completion_schedule n order) = mset [0..<n]"
proof -
  have "set (completion_schedule n order) = set [0..<n]"
    by (auto simp: set_completion_schedule)
  moreover have "distinct (completion_schedule n order)" "distinct [0..<n]"
    by (simp_all add: distinct_completion_schedule)
  ultimately show ?thesis
    by (simp only: set_eq_iff_mset_eq_distinct)
qed

lemma sort_indexed:
  assumes "mset sched = mset [0..<n]"
  shows "sort_key fst (map (\<lambda>i. (i, g i)) sched) = map (\<lambda>i. (i, g i)) [0..<n]"
proof (rule sort_key_inj_key_eq)
  show "mset (map (\<lambda>i. (i, g i)) sched) = mset (map (\<lambda>i. (i, g i)) [0..<n])"
    using assms by (metis mset_map)
  show "inj_on fst (set (map (\<lambda>i. (i, g i)) sched))"
    by (auto simp: inj_on_def)
  show "sorted (map fst (map (\<lambda>i. (i, g i)) [0..<n]))"
    by (simp add: comp_def)
qed

lemma gather_results:
  assumes "\<And>c. c \<in> set coros \<Longrightarrow> stateless c"
  shows "fst (gather env coros s) = Inr (map (\<lambda>c. fst (c s0)) coros)"
proof -
  let ?sched = "completion_schedule (length coros) (completion_order env)"
  let ?outs = "map (\<lambda>c. fst (c s0)) coros"
  have outs: "fst (start_all coros [] s) = [] @ ?outs"
    by (rule start_all_results) (rule assms)
  have "sort_key fst (map (\<lambda>i. (i, ?outs ! i)) ?sched)
      = map (\<lambda>i. (i, ?outs ! i)) [0..<length coros]"
    by (rule sort_indexed [OF mset_completion_schedule])
  then have "map snd (sort_key fst (map (\<lambda>i. (i, ?outs ! i)) ?sched))
      = map (\<lambda>i. ?outs ! i) [0..<length coros]"
    by (simp add: comp_def)
  also have "\<dots> = ?outs"
    by (rule nth_equalityI) simp_all
  finally show ?thesis
    using outs by (cases "start_all coros [] s") (simp add: gather_def)
qed

lemma parallel_steps_result:
  "i + length rs = length tasks \<Longrightarrow>
   parallel_steps tasks i rs acc =
     Inr (acc @ map (\<lambda>j. (dict_get (tasks ! j) ''name'' (PStr (''Task '' @ string_of_nat (j + 1))),
                            outcome_text (rs ! (j - i)))) [i..<length tasks])"
proof (induction rs arbitrary: i acc)
  case Nil
  then show ?case by simp
next
  case (Cons r rs)
  from Cons.prems have lt: "i < length tasks" and nx: "Suc i + length rs = length tasks" by simp_all
  have m: "map (\<lambda>j. (dict_get (tasks ! j) ''name'' (PStr (''Task '' @ string_of_nat (j + 1))),
                            outcome_text ((r # rs) ! (j - i)))) [Suc i..<length tasks]
      = map (\<lambda>j. (dict_get (tasks ! j) ''name'' (PStr (''Task '' @ string_of_nat (j + 1))),
                            outcome_text (rs ! (j - Suc i)))) [Suc i..<length tasks]"
    by (rule map_cong [OF refl]) (auto simp: nth_Cons' Suc_diff_Suc)
  show ?case
    using lt Cons.IH [OF nx] m
    by (simp add: list_index_def upt_conv_Cons outcome_text_def)
qed

lemma enumerate_steps:
  "map (\<lambda>j. (nm j (tasks ! j), f (map g tasks ! (j - 0)))) [0..<length tasks]
     = map (\<lambda>(i, task). (nm i task, f (g task))) (enumerate 0 tasks)"
  by (rule nth_equalityI) (simp_all add: nth_enumerate_eq)

lemma custom_parallel_result:
  "fst (execute_custom_workflow env tasks True ms s) =
     Inr (generate_workflow_report env ''Custom Workflow''
            (map (\<lambda>(i, task).
                    (dict_get task ''name'' (PStr (''Task '' @ string_of_nat (i + 1))),
                     outcome_text (fst (execute_single_task env task ms s0))))
               (enumerate 0 tasks)))"
proof -
  let ?coros = "map (\<lambda>task. execute_single_task env task ms) tasks"
  let ?results = "map (\<lambda>task. fst (execute_single_task env task ms s0)) tasks"
  have "fst (gather env ?coros s) = Inr (map (\<lambda>c. fst (c s0)) ?coros)"
    by (rule gather_results) (auto simp: stateless_execute_single_task)
  then obtain s' where g: "gather env ?coros s = (Inr ?results, s')"
    by (cases "gather env ?coros s") (simp add: comp_def)
  have p: "parallel_steps tasks 0 ?results [] =
     Inr ([] @ map (\<lambda>j. (dict_get (tasks ! j) ''name'' (PStr (''Task '' @ string_of_nat (j + 1))),
                            outcome_text (?results ! (j - 0)))) [0..<length tasks])"
    by (rule parallel_steps_result) simp
  have e: "map (\<lambda>j. (dict_get (tasks ! j) ''name'' (PStr (''Task '' @ string_of_nat (j + 1))),
                            outcome_text (?results ! (j - 0)))) [0..<length tasks]
     = map (\<lambda>(i, task).
                    (dict_get task ''name'' (PStr (''Task '' @ string_of_nat (i + 1))),
                     outcome_text (fst (execute_single_task env task ms s0))))
               (enumerate 0 tasks)"
    by (rule enumerate_steps
          [of "\<lambda>j task. dict_get task ''name'' (PStr (''Task '' @ string_of_nat (j + 1)))"
              tasks outcome_text "\<lambda>task. fst (execute_single_task env task ms s0)"])
  show ?thesis
    unfolding execute_custom_workflow_def
    using g p e by (simp add: bindM_def liftM_def returnM_def)
qed

lemma custom_sequential_result:
  "fst (execute_custom_workflow env tasks False ms s) =
     Inr (generate_workflow_report env ''Custom Workflow''
            (map (\<lambda>task. (dict_get task ''name'' (PStr ''Task''),
                            outcome_text (fst (execute_single_task env task ms s0)))) tasks))"
proof -
  obtain s' where "custom_sequential env ms tasks [] s =
     (Inr ([] @ map (\<lambda>task. (dict_get task ''name'' (PStr ''Task''),
                               outcome_text (fst (execute_single_task env task ms s0)))) tasks), s')"
    using custom_sequential_steps [of env ms tasks "[]" s s0] by blast
  then show ?thesis
    by (simp add: execute_custom_workflow_def bindM_def returnM_def)
qed

text \<open>Nothing but \<open>gather\<close> reads the completion order.\<close>

lemma py_str_order: "py_str (env\<lparr>completion_order := ord\<rparr>) v = py_str env v"
  by (cases v) (simp_all add: py_str_def)

lemma execute_with_model_order:
  "execute_with_model (env\<lparr>completion_order := ord\<rparr>) model c tm = execute_with_model env model c tm"
  by (simp add: execute_with_model_def py_str_order cong: option.case_cong sum.case_cong)

lemma analyze_responses_order:
  "analyze_responses (env\<lparr>completion_order := ord\<rparr>) rs acc = analyze_responses env rs acc"
proof (induction rs arbitrary: acc)
  case Nil
  show ?case by simp
next
  case (Cons r rs)
  obtain m t where r: "r = (m, t)" by (cases r)
  show ?case unfolding r by (cases m) (simp_all add: Cons.IH)
qed

lemma collect_responses_order:
  "collect_responses (env\<lparr>completion_order := ord\<rparr>) prompt files models tm ms acc
     = collect_responses env prompt files models tm ms acc"
proof (induction ms arbitrary: acc)
  case Nil
  show ?case by simp
next
  case (Cons m ms)
  show ?case by (cases "get_provider_for_model env m") (simp_all add: Cons.IH)
qed

lemma execute_consensus_workflow_order:
  "execute_consensus_workflow (env\<lparr>completion_order := ord\<rparr>) prompt files models tm
     = execute_consensus_workflow env prompt files models tm"
  by (simp add: execute_consensus_workflow_def collect_responses_order analyze_consensus_def
        analyze_responses_order)

lemma agents_execute_order:
  "ArchitectureAgent_execute (env\<lparr>completion_order := ord\<rparr>) a = ArchitectureAgent_execute env a"
  "ImplementationAgent_execute (env\<lparr>completion_order := ord\<rparr>) a = ImplementationAgent_execute env a"
  "OptimizationAgent_execute (env\<lparr>completion_order := ord\<rparr>) a = OptimizationAgent_execute env a"
  "ContentAgent_execute (env\<lparr>completion_order := ord\<rparr>) a = ContentAgent_execute env a"
  "ConsensusAgent_execute (env\<lparr>completion_order := ord\<rparr>) a = ConsensusAgent_execute env a"
  "ProceduralPuzzleAgent_execute (env\<lparr>completion_order := ord\<rparr>) a = ProceduralPuzzleAgent_execute env a"
  "DynamicDifficultyAgent_execute (env\<lparr>completion_order := ord\<rparr>) a = DynamicDifficultyAgent_execute env a"
  "NarrativeAgent_execute (env\<lparr>completion_order := ord\<rparr>) a = NarrativeAgent_execute env a"
  "AssetOptimizationAgent_execute (env\<lparr>completion_order := ord\<rparr>) a = AssetOptimizationAgent_execute env a"
  by (simp_all add: ArchitectureAgent_execute_def ImplementationAgent_execute_def
    OptimizationAgent_execute_def ContentAgent_execute_def ConsensusAgent_execute_def
    ProceduralPuzzleAgent_execute_def DynamicDifficultyAgent_execute_def
    NarrativeAgent_execute_def AssetOptimizationAgent_execute_def
    execute_with_model_order execute_consensus_workflow_order)

lemma agent_order:
  "agents n = Some f \<Longrightarrow> f (env\<lparr>completion_order := ord\<rparr>) a = f env a"
  by (drule agents_cases) (auto simp: agents_execute_order)

lemma execute_single_task_order:
  "execute_single_task (env\<lparr>completion_order := ord\<rparr>) task ms = execute_single_task env task ms"
proof (cases "dict_get task ''agent'' (dict_get task ''type'' PNone)")
  case (PStr n)
  show ?thesis
  proof (cases "agents n")
    case None
    with PStr show ?thesis by (simp add: execute_single_task_def)
  next
    case (Some f)
    with PStr show ?thesis
      by (simp add: execute_single_task_def agent_order [OF Some])
  qed
qed (simp_all add: execute_single_task_def py_str_order)

lemma report_steps_order:
  "report_steps (env\<lparr>completion_order := ord\<rparr>) i steps acc = report_steps env i steps acc"
proof (induction steps arbitrary: i acc)
  case Nil
  show ?case by simp
next
  case (Cons st steps)
  obtain n r where st: "st = (n, r)" by (cases st)
  show ?case unfolding st report_steps.simps Cons.IH py_str_order ..
qed

lemma generate_workflow_report_order:
  "generate_workflow_report (env\<lparr>completion_order := ord\<rparr>) n steps
     = generate_workflow_report env n steps"
  by (simp add: generate_workflow_report_def report_steps_order get_timestamp_def)

lemma enumerate_map_enumerate:
  "map f (enumerate 1 (map g (enumerate 0 xs))) = map (\<lambda>(i, x). f (i + 1, g (i, x))) (enumerate 0 xs)"
  by (rule nth_equalityI) (simp_all add: nth_enumerate_eq)

lemma custom_parallel_text:
  "fst (execute_custom_workflow env tasks True ms s) =
     Inr (''# Custom Workflow Workflow Report\<newline>\<newline>''
     @ ''**Generated:** '' @ get_timestamp env @ ''\<newline>''
     @ ''**Total Steps:** '' @ string_of_nat (length tasks) @ ''\<newline>\<newline>''
     @ concat (map (\<lambda>(i, task).
                      ''## Step '' @ string_of_nat (i + 1) @ '': ''
                        @ py_str env (dict_get task ''name'' (PStr (''Task '' @ string_of_nat (i + 1))))
                        @ ''\<newline>\<newline>''
                        @ (case fst (execute_single_task env task ms s0) of
                             Inl e \<Rightarrow> ''Error: '' @ exn_str e | Inr result \<Rightarrow> result)
                        @ ''\<newline>\<newline>'' @ ''---\<newline>\<newline>'')
                 (enumerate 0 tasks))
     @ ''## Workflow Summary\<newline>\<newline>''
     @ ''- **Workflow Type:** Custom Workflow\<newline>''
     @ ''- **Steps Completed:** '' @ string_of_nat (length tasks) @ ''\<newline>''
     @ ''- **Status:** Completed Successfully\<newline>\<newline>''
     @ ''## Recommendations\<newline>\<newline>''
     @ ''1. Review each step's output for quality and completeness\<newline>''
     @ ''2. Implement recommendations in order of priority\<newline>''
     @ ''3. Test changes thoroughly before deployment\<newline>''
     @ ''4. Monitor performance and user feedback\<newline>\<newline>'')"
  unfolding custom_parallel_result [of env tasks ms s s0] report_text enumerate_map_enumerate
  by (simp add: outcome_text_def case_prod_unfold)

text \<open>
  Claim C3. A parallel custom workflow returns a report, whatever its tasks do: the
  failure of a task is collected as the text \<open>Error: ...\<close> of its own step. The step
  list has one entry per task, in the order of the task list: entry \<open>i\<close> carries the name
  of task \<open>i\<close> (or \<open>Task i+1\<close>) and the outcome of task \<open>i\<close>; and the report text
  prints these steps in that order, as \<open>Step 1\<close>, \<open>Step 2\<close>, ... between the header and
  the summary. The completion order of the event loop does not appear in the result.
\<close>

theorem parallel_steps_in_task_order:
  "fst (execute_custom_workflow (env\<lparr>completion_order := order\<rparr>) tasks True model_strategy s) =
     Inr (generate_workflow_report env ''Custom Workflow''
            (map (\<lambda>(i, task).
                    (dict_get task ''name'' (PStr (''Task '' @ string_of_nat (i + 1))),
                     outcome_text (fst (execute_single_task env task model_strategy s))))
               (enumerate 0 tasks)))
   \<and> fst (execute_custom_workflow (env\<lparr>completion_order := order\<rparr>) tasks True model_strategy s) =
     Inr (''# Custom Workflow Workflow Report\<newline>\<newline>''
     @ ''**Generated:** '' @ get_timestamp env @ ''\<newline>''
     @ ''**Total Steps:** '' @ string_of_nat (length tasks) @ ''\<newline>\<newline>''
     @ concat (map (\<lambda>(i, task).
                      ''## Step '' @ string_of_nat (i + 1) @ '': ''
                        @ py_str env (dict_get task ''name'' (PStr (''Task '' @ string_of_nat (i + 1))))
                        @ ''\<newline>\<newline>''
                        @ (case fst (execute_single_task env task model_strategy s) of
                             Inl e \<Rightarrow> ''Error: '' @ exn_str e | Inr result \<Rightarrow> result)
                        @ ''\<newline>\<newline>'' @ ''---\<newline>\<newline>'')
                 (enumerate 0 tasks))
     @ ''## Workflow Summary\<newline>\<newline>''
     @ ''- **Workflow Type:** Custom Workflow\<newline>''
     @ ''- **Steps Completed:** '' @ string_of_nat (length tasks) @ ''\<newline>''
     @ ''- **Status:** Completed Successfully\<newline>\<newline>''
     @ ''## Recommendations\<newline>\<newline>''
     @ ''1. Review each step's output for quality and completeness\<newline>''
     @ ''2. Implement recommendations in order of priority\<newline>''
     @ ''3. Test changes thoroughly before deployment\<newline>''
     @ ''4. Monitor performance and user feedback\<newline>\<newline>'')"
proof (rule conjI)
  show "fst (execute_custom_workflow (env\<lparr>completion_order := order\<rparr>) tasks True model_strategy s) =
     Inr (generate_workflow_report env ''Custom Workflow''
            (map (\<lambda>(i, task).
                    (dict_get task ''name'' (PStr (''Task '' @ string_of_nat (i + 1))),
                     outcome_text (fst (execute_single_task env task model_strategy s))))
               (enumerate 0 tasks)))"
    using custom_parallel_result [of "env\<lparr>completion_order := order\<rparr>" tasks model_strategy s s]
    by (simp only: execute_single_task_order generate_workflow_report_order)
next
  have ts: "get_timestamp (env\<lparr>completion_order := order\<rparr>) = get_timestamp env"
    by (simp add: get_timestamp_def)
  show "fst (execute_custom_workflow (env\<lparr>completion_order := order\<rparr>) tasks True model_strategy s) =
     Inr (''# Custom Workflow Workflow Report\<newline>\<newline>''
     @ ''**Generated:** '' @ get_timestamp env @ ''\<newline>''
     @ ''**Total Steps:** '' @ string_of_nat (length tasks) @ ''\<newline>\<newline>''
     @ concat (map (\<lambda>(i, task).
                      ''## Step '' @ string_of_nat (i + 1) @ '': ''
                        @ py_str env (dict_get task ''name'' (PStr (''Task '' @ string_of_nat (i + 1))))
                        @ ''\<newline>\<newline>''
                        @ (case fst (execute_single_task env task model_strategy s) of
                             Inl e \<Rightarrow> ''Error: '' @ exn_str e | Inr result \<Rightarrow> result)
                        @ ''\<newline>\<newline>'' @ ''---\<newline>\<newline>'')
                 (enumerate 0 tasks))
     @ ''## Workflow Summary\<newline>\<newline>''
     @ ''- **Workflow Type:** Custom Workflow\<newline>''
     @ ''- **Steps Completed:** '' @ string_of_nat (length tasks) @ ''\<newline>''
     @ ''- **Status:** Completed Successfully\<newline>\<newline>''
     @ ''## Recommendations\<newline>\<newline>''
     @ ''1. Review each step's output for quality and completeness\<newline>''
     @ ''2. Implement recommendations in order of priority\<newline>''
     @ ''3. Test changes thoroughly before deployment\<newline>''
     @ ''4. Monitor performance and user feedback\<newline>\<newline>'')"
    using custom_parallel_text [of "env\<lparr>completion_order := order\<rparr>" tasks model_strategy s s]
    by (simp only: execute_single_task_order py_str_order ts)
qed

section \<open>The custom workflow on three tasks\<close>

lemma demo_single_task:
  "execute_single_task demo_env [''type'' \<mapsto> PStr ''implementation'', ''prompt'' \<mapsto> PStr p] ''auto'' s
   = (if p = ''boom''
      then (Inl (ToolExecutionError ''Failed to execute with model gemini-flash: provider unavailable''),
            s\<lparr>provider_calls := provider_calls s @ [(PStr ''gemini-flash'', p, PStr ''medium'')]\<rparr>)
      else (Inr (''reply to '' @ p),
            s\<lparr>provider_calls := provider_calls s @ [(PStr ''gemini-flash'', p, PStr ''medium'')]\<rparr>))"
  by (simp add: execute_single_task_def agents_def agent_specific_args_def agent_defs
        monad_defs demo_defs select_model_def base_model_def model_map_def py_str_def)

lemma demo_single_task_named:
  "execute_single_task demo_env
     [''type'' \<mapsto> PStr ''implementation'', ''prompt'' \<mapsto> PStr p, ''name'' \<mapsto> PStr n] ''auto'' s
   = (if p = ''boom''
      then (Inl (ToolExecutionError ''Failed to execute with model gemini-flash: provider unavailable''),
            s\<lparr>provider_calls := provider_calls s @ [(PStr ''gemini-flash'', p, PStr ''medium'')]\<rparr>)
      else (Inr (''reply to '' @ p),
            s\<lparr>provider_calls := provider_calls s @ [(PStr ''gemini-flash'', p, PStr ''medium'')]\<rparr>))"
  by (simp add: execute_single_task_def agents_def agent_specific_args_def agent_defs
        monad_defs demo_defs select_model_def base_model_def model_map_def py_str_def)

lemma demo_timestamp: "get_timestamp demo_env = ''2024-01-02 03:04:05''"
  by (simp add: get_timestamp_def demo_env_def strftime_def pad2_def string_of_nat.simps)

lemma three_steps_text:
  "generate_workflow_report env ''Custom Workflow'' [(n1, r1), (n2, r2), (n3, r3)] =
     ''# Custom Workflow Workflow Report\<newline>\<newline>''
     @ ''**Generated:** '' @ get_timestamp env @ ''\<newline>''
     @ ''**Total Steps:** 3\<newline>\<newline>''
     @ ''## Step 1: '' @ py_str env n1 @ ''\<newline>\<newline>'' @ r1 @ ''\<newline>\<newline>'' @ ''---\<newline>\<newline>''
     @ ''## Step 2: '' @ py_str env n2 @ ''\<newline>\<newline>'' @ r2 @ ''\<newline>\<newline>'' @ ''---\<newline>\<newline>''
     @ ''## Step 3: '' @ py_str env n3 @ ''\<newline>\<newline>'' @ r3 @ ''\<newline>\<newline>'' @ ''---\<newline>\<newline>''
     @ ''## Workflow Summary\<newline>\<newline>''
     @ ''- **Workflow Type:** Custom Workflow\<newline>''
     @ ''- **Steps Completed:** 3\<newline>''
     @ ''- **Status:** Completed Successfully\<newline>\<newline>''
     @ ''## Recommendations\<newline>\<newline>''
     @ ''1. Review each step's output for quality and completeness\<newline>''
     @ ''2. Implement recommendations in order of priority\<newline>''
     @ ''3. Test changes thoroughly before deployment\<newline>''
     @ ''4. Monitor performance and user feedback\<newline>\<newline>''"
  by (simp add: generate_workflow_report_def string_of_nat.simps)

text \<open>
  Claim C4. A sequential custom workflow of three tasks, of which the first and the third
  succeed and the second fails, returns a report of three steps: the text of the report
  prints, under \<open>Step 1\<close> and \<open>Step 3\<close>, the results of the first and the third task,
  and under \<open>Step 2\<close> the text \<open>Error: \<close> followed by the message of the exception.
  The tasks run one after the other, each from the state the one before it left.
\<close>

theorem sequential_isolation:
  "execute_single_task env task1 model_strategy s = (Inr result1, s1) \<Longrightarrow>
   execute_single_task env task2 model_strategy s1 = (Inl e, s2) \<Longrightarrow>
   execute_single_task env task3 model_strategy s2 = (Inr result3, s3) \<Longrightarrow>
   execute_custom_workflow env [task1, task2, task3] False model_strategy s =
     (Inr (''# Custom Workflow Workflow Report\<newline>\<newline>''
     @ ''**Generated:** '' @ get_timestamp env @ ''\<newline>''
     @ ''**Total Steps:** 3\<newline>\<newline>''
     @ ''## Step 1: '' @ py_str env (dict_get task1 ''name'' (PStr ''Task'')) @ ''\<newline>\<newline>''
         @ result1 @ ''\<newline>\<newline>'' @ ''---\<newline>\<newline>''
     @ ''## Step 2: '' @ py_str env (dict_get task2 ''name'' (PStr ''Task'')) @ ''\<newline>\<newline>''
         @ (''Error: '' @ exn_str e) @ ''\<newline>\<newline>'' @ ''---\<newline>\<newline>''
     @ ''## Step 3: '' @ py_str env (dict_get task3 ''name'' (PStr ''Task'')) @ ''\<newline>\<newline>''
         @ result3 @ ''\<newline>\<newline>'' @ ''---\<newline>\<newline>''
     @ ''## Workflow Summary\<newline>\<newline>''
     @ ''- **Workflow Type:** Custom Workflow\<newline>''
     @ ''- **Steps Completed:** 3\<newline>''
     @ ''- **Status:** Completed Successfully\<newline>\<newline>''
     @ ''## Recommendations\<newline>\<newline>''
     @ ''1. Review each step's output for quality and completeness\<newline>''
     @ ''2. Implement recommendations in order of priority\<newline>''
     @ ''3. Test changes thoroughly before deployment\<newline>''
     @ ''4. Monitor performance and user feedback\<newline>\<newline>''), s3)"
  by (simp add: execute_custom_workflow_def bindM_def returnM_def three_steps_text)

theorem sequential_isolation_witness:
  "execute_custom_workflow demo_env
     [[''type'' \<mapsto> PStr ''implementation'', ''prompt'' \<mapsto> PStr ''a''],
      [''type'' \<mapsto> PStr ''implementation'', ''prompt'' \<mapsto> PStr ''boom'', ''name'' \<mapsto> PStr ''second''],
      [''type'' \<mapsto> PStr ''implementation'', ''prompt'' \<mapsto> PStr ''c'']] False ''auto'' empty_state
   = (Inr (''# Custom Workflow Workflow Report\<newline>\<newline>''
     @ ''**Generated:** 2024-01-02 03:04:05\<newline>''
     @ ''**Total Steps:** 3\<newline>\<newline>''
     @ ''## Step 1: Task\<newline>\<newline>''
     @ ''reply to a\<newline>\<newline>''
     @ ''---\<newline>\<newline>''
     @ ''## Step 2: second\<newline>\<newline>''
     @ ''Error: Failed to execute with model gemini-flash: provider unavailable\<newline>\<newline>''
     @ ''---\<newline>\<newline>''
     @ ''## Step 3: Task\<newline>\<newline>''
     @ ''reply to c\<newline>\<newline>''
     @ ''---\<newline>\<newline>''
     @ ''## Workflow Summary\<newline>\<newline>''
     @ ''- **Workflow Type:** Custom Workflow\<newline>''
     @ ''- **Steps Completed:** 3\<newline>''
     @ ''- **Status:** Completed Successfully\<newline>\<newline>''
     @ ''## Recommendations\<newline>\<newline>''
     @ ''1. Review each step's output for quality and completeness\<newline>''
     @ ''2. Implement recommendations in order of priority\<newline>''
     @ ''3. Test changes thoroughly before deployment\<newline>''
     @ ''4. Monitor performance and user feedback\<newline>\<newline>''),
      \<lparr> shared_context = Map.empty,
        provider_calls = [(PStr ''gemini-flash'', ''a'', PStr ''medium''),
                          (PStr ''gemini-flash'', ''boom'', PStr ''medium''),
                          (PStr ''gemini-flash'', ''c'', PStr ''medium'')] \<rparr>)"
proof -
  let ?s1 = "\<lparr> shared_context = Map.empty,
        provider_calls = [(PStr ''gemini-flash'', ''a'', PStr ''medium'')] \<rparr>"
  let ?s2 = "\<lparr> shared_context = Map.empty,
        provider_calls = [(PStr ''gemini-flash'', ''a'', PStr ''medium''),
                          (PStr ''gemini-flash'', ''boom'', PStr ''medium'')] \<rparr>"
  let ?s3 = "\<lparr> shared_context = Map.empty,
        provider_calls = [(PStr ''gemini-flash'', ''a'', PStr ''medium''),
                          (PStr ''gemini-flash'', ''boom'', PStr ''medium''),
                          (PStr ''gemini-flash'', ''c'', PStr ''medium'')] \<rparr>"
  have h1: "execute_single_task demo_env
      [''type'' \<mapsto> PStr ''implementation'', ''prompt'' \<mapsto> PStr ''a''] ''auto'' empty_state
      = (Inr ''reply to a'', ?s1)"
    by (simp add: demo_single_task empty_state_def)
  have h2: "execute_single_task demo_env
      [''type'' \<mapsto> PStr ''implementation'', ''prompt'' \<mapsto> PStr ''boom'', ''name'' \<mapsto> PStr ''second'']
      ''auto'' ?s1
      = (Inl (ToolExecutionError ''Failed to execute with model gemini-flash: provider unavailable''), ?s2)"
    by (simp add: demo_single_task_named)
  have h3: "execute_single_task demo_env
      [''type'' \<mapsto> PStr ''implementation'', ''prompt'' \<mapsto> PStr ''c''] ''auto'' ?s2
      = (Inr ''reply to c'', ?s3)"
    by (simp add: demo_single_task)
  show ?thesis
    using sequential_isolation [OF h1 h2 h3]
    by (simp add: dict_get_def demo_timestamp py_str_def)
qed

theorem parallel_steps_in_task_order_witness:
  "fst (execute_custom_workflow (demo_env\<lparr>completion_order := [1, 2, 0]\<rparr>)
     [[''type'' \<mapsto> PStr ''implementation'', ''prompt'' \<mapsto> PStr ''a''],
      [''type'' \<mapsto> PStr ''implementation'', ''prompt'' \<mapsto> PStr ''boom'', ''name'' \<mapsto> PStr ''second''],
      [''type'' \<mapsto> PStr ''implementation'', ''prompt'' \<mapsto> PStr ''c'']] True ''auto'' empty_state)
   = Inr (''# Custom Workflow Workflow Report\<newline>\<newline>''
     @ ''**Generated:** 2024-01-02 03:04:05\<newline>''
     @ ''**Total Steps:** 3\<newline>\<newline>''
     @ ''## Step 1: Task 1\<newline>\<newline>''
     @ ''reply to a\<newline>\<newline>''
     @ ''---\<newline>\<newline>''
     @ ''## Step 2: second\<newline>\<newline>''
     @ ''Error: Failed to execute with model gemini-flash: provider unavailable\<newline>\<newline>''
     @ ''---\<newline>\<newline>''
     @ ''## Step 3: Task 3\<newline>\<newline>''
     @ ''reply to c\<newline>\<newline>''
     @ ''---\<newline>\<newline>''
     @ ''## Workflow Summary\<newline>\<newline>''
     @ ''- **Workflow Type:** Custom Workflow\<newline>''
     @ ''- **Steps Completed:** 3\<newline>''
     @ ''- **Status:** Completed Successfully\<newline>\<newline>''
     @ ''## Recommendations\<newline>\<newline>''
     @ ''1. Review each step's output for quality and completeness\<newline>''
     @ ''2. Implement recommendations in order of priority\<newline>''
     @ ''3. Test changes thoroughly before deployment\<newline>''
     @ ''4. Monitor performance and user feedback\<newline>\<newline>'')"
  using parallel_steps_in_task_order [where env = demo_env and order = "[1, 2, 0]"
     and model_strategy = "''auto''" and s = empty_state and tasks =
     "[[''type'' \<mapsto> PStr ''implementation'', ''prompt'' \<mapsto> PStr ''a''],
      [''type'' \<mapsto> PStr ''implementation'', ''prompt'' \<mapsto> PStr ''boom'', ''name'' \<mapsto> PStr ''second''],
      [''type'' \<mapsto> PStr ''implementation'', ''prompt'' \<mapsto> PStr ''c'']]", THEN conjunct2]
  by (simp add: enumerate_eq_zip upt_rec [of 0] demo_single_task demo_single_task_named
        dict_get_def string_of_nat.simps demo_timestamp py_str_def)

section \<open>Failures of steps, by workflow type\<close>

lemma enumerate_map_plain:
  "map f (enumerate 1 (map g xs)) = map (\<lambda>(i, x). f (i + 1, g x)) (enumerate 0 xs)"
  by (rule nth_equalityI) (simp_all add: nth_enumerate_eq)

lemma custom_sequential_text:
  "fst (execute_custom_workflow env tasks False ms s) =
     Inr (''# Custom Workflow Workflow Report\<newline>\<newline>''
     @ ''**Generated:** '' @ get_timestamp env @ ''\<newline>''
     @ ''**Total Steps:** '' @ string_of_nat (length tasks) @ ''\<newline>\<newline>''
     @ concat (map (\<lambda>(i, task).
                      ''## Step '' @ string_of_nat (i + 1) @ '': ''
                        @ py_str env (dict_get task ''name'' (PStr ''Task''))
                        @ ''\<newline>\<newline>''
                        @ (case fst (execute_single_task env task ms s0) of
                             Inl e \<Rightarrow> ''Error: '' @ exn_str e | Inr result \<Rightarrow> result)
                        @ ''\<newline>\<newline>'' @ ''---\<newline>\<newline>'')
                 (enumerate 0 tasks))
     @ ''## Workflow Summary\<newline>\<newline>''
     @ ''- **Workflow Type:** Custom Workflow\<newline>''
     @ ''- **Steps Completed:** '' @ string_of_nat (length tasks) @ ''\<newline>''
     @ ''- **Status:** Completed Successfully\<newline>\<newline>''
     @ ''## Recommendations\<newline>\<newline>''
     @ ''1. Review each step's output for quality and completeness\<newline>''
     @ ''2. Implement recommendations in order of priority\<newline>''
     @ ''3. Test changes thoroughly before deployment\<newline>''
     @ ''4. Monitor performance and user feedback\<newline>\<newline>'')"
  unfolding custom_sequential_result [of env tasks ms s s0] report_text enumerate_map_plain
  by (simp add: outcome_text_def case_prod_unfold)

text \<open>
  Claim C1, as amended. In the custom workflow, sequential or parallel, and for every task
  list, the run returns a report, whatever the tasks do: the report prints one step per
  task, in task order, and the text of a step is the result of its task or, when the task
  raised, \<open>Error: \<close> followed by the message of the exception, which was caught at
  that step.
\<close>

theorem custom_workflow_isolates_failures:
  "fst (execute env \<lparr> arg_workflow_type = ''custom'', arg_tasks = tasks, arg_parallel = par,
                       arg_model_strategy = strategy \<rparr> s) =
     Inr [TextContent
       (''# Custom Workflow Workflow Report\<newline>\<newline>''
     @ ''**Generated:** '' @ get_timestamp env @ ''\<newline>''
     @ ''**Total Steps:** '' @ string_of_nat (length tasks) @ ''\<newline>\<newline>''
     @ concat (map (\<lambda>(i, task).
                      ''## Step '' @ string_of_nat (i + 1) @ '': ''
                        @ py_str env (dict_get task ''name''
                            (if par = Some True then PStr (''Task '' @ string_of_nat (i + 1))
                             else PStr ''Task''))
                        @ ''\<newline>\<newline>''
                        @ (case fst (execute_single_task env task
                                       (case strategy of None \<Rightarrow> ''auto'' | Some m \<Rightarrow> m) s) of
                             Inl e \<Rightarrow> ''Error: '' @ exn_str e | Inr result \<Rightarrow> result)
                        @ ''\<newline>\<newline>'' @ ''---\<newline>\<newline>'')
                 (enumerate 0 tasks))
     @ ''## Workflow Summary\<newline>\<newline>''
     @ ''- **Workflow Type:** Custom Workflow\<newline>''
     @ ''- **Steps Completed:** '' @ string_of_nat (length tasks) @ ''\<newline>''
     @ ''- **Status:** Completed Successfully\<newline>\<newline>''
     @ ''## Recommendations\<newline>\<newline>''
     @ ''1. Review each step's output for quality and completeness\<newline>''
     @ ''2. Implement recommendations in order of priority\<newline>''
     @ ''3. Test changes thoroughly before deployment\<newline>''
     @ ''4. Monitor performance and user feedback\<newline>\<newline>'')]"
proof -
  let ?ms = "case strategy of None \<Rightarrow> ''auto'' | Some m \<Rightarrow> m"
  let ?p = "case par of None \<Rightarrow> False | Some b \<Rightarrow> b"
  have ex: "execute env \<lparr> arg_workflow_type = ''custom'', arg_tasks = tasks, arg_parallel = par,
                       arg_model_strategy = strategy \<rparr>
      = bindM (execute_custom_workflow env tasks ?p ?ms) (\<lambda>result. returnM [TextContent result])"
    by (simp add: execute_def Let_def)
  have wrap: "\<And>m x. fst (m s) = Inr x \<Longrightarrow>
      fst (bindM m (\<lambda>result. returnM [TextContent result]) s) = Inr [TextContent x]"
  proof -
    fix m :: "string run" and x
    assume a: "fst (m s) = Inr x"
    obtain r s' where ms: "m s = (r, s')" by (cases "m s")
    with a have "r = Inr x" by simp
    with ms show "fst (bindM m (\<lambda>result. returnM [TextContent result]) s) = Inr [TextContent x]"
      by (simp add: bindM_def returnM_def)
  qed
  show ?thesis
  proof (cases "par = Some True")
    case True
    then have p: "?p = True" by simp
    show ?thesis
      unfolding ex p
      by (rule wrap) (simp add: custom_parallel_text [of env tasks ?ms s s] True)
  next
    case False
    then have p: "?p = False" by (cases par) auto
    show ?thesis
      unfolding ex p
      by (rule wrap) (simp add: custom_sequential_text [of env tasks ?ms s s] False)
  qed
qed

text \<open>
  Claim C1 as stated fails for the named workflows, whose steps are called with no
  \<open>try\<close> around them: in a game development run whose architecture task fails at the
  provider, the exception leaves \<open>execute\<close> and no report is returned.
\<close>

theorem named_workflow_failure_counterexample:
  "execute demo_env
     \<lparr> arg_workflow_type = ''game_development'',
       arg_tasks = [[''type'' \<mapsto> PStr ''architecture'', ''prompt'' \<mapsto> PStr ''boom'']],
       arg_parallel = None, arg_model_strategy = None \<rparr> empty_state
   = (Inl (ToolExecutionError ''Failed to execute with model gemini-pro: provider unavailable''),
      \<lparr> shared_context = Map.empty,
        provider_calls = [(PStr ''gemini-pro'', ''boom'', PStr ''high'')] \<rparr>)"
  by (simp add: execute_def Let_def execute_game_development_workflow_def append_step_def
        any_task_def execute_architecture_step_def next_task_def task_type_is_def agent_defs
        monad_defs demo_defs select_model_def base_model_def model_map_def py_str_def)

theorem custom_workflow_isolates_failures_witness:
  "fst (execute demo_env
     \<lparr> arg_workflow_type = ''custom'',
       arg_tasks =
       [[''type'' \<mapsto> PStr ''implementation'', ''prompt'' \<mapsto> PStr ''a''],
        [''type'' \<mapsto> PStr ''implementation'', ''prompt'' \<mapsto> PStr ''boom'', ''name'' \<mapsto> PStr ''second''],
        [''type'' \<mapsto> PStr ''implementation'', ''prompt'' \<mapsto> PStr ''c'']],
       arg_parallel = None, arg_model_strategy = None \<rparr> empty_state)
   = Inr [TextContent
       (''# Custom Workflow Workflow Report\<newline>\<newline>''
     @ ''**Generated:** 2024-01-02 03:04:05\<newline>''
     @ ''**Total Steps:** 3\<newline>\<newline>''
     @ ''## Step 1: Task\<newline>\<newline>''
     @ ''reply to a\<newline>\<newline>''
     @ ''---\<newline>\<newline>''
     @ ''## Step 2: second\<newline>\<newline>''
     @ ''Error: Failed to execute with model gemini-flash: provider unavailable\<newline>\<newline>''
     @ ''---\<newline>\<newline>''
     @ ''## Step 3: Task\<newline>\<newline>''
     @ ''reply to c\<newline>\<newline>''
     @ ''---\<newline>\<newline>''
     @ ''## Workflow Summary\<newline>\<newline>''
     @ ''- **Workflow Type:** Custom Workflow\<newline>''
     @ ''- **Steps Completed:** 3\<newline>''
     @ ''- **Status:** Completed Successfully\<newline>\<newline>''
     @ ''## Recommendations\<newline>\<newline>''
     @ ''1. Review each step's output for quality and completeness\<newline>''
     @ ''2. Implement recommendations in order of priority\<newline>''
     @ ''3. Test changes thoroughly before deployment\<newline>''
     @ ''4. Monitor performance and user feedback\<newline>\<newline>'')]
   \<and> fst (execute demo_env
     \<lparr> arg_workflow_type = ''custom'',
       arg_tasks =
       [[''type'' \<mapsto> PStr ''implementation'', ''prompt'' \<mapsto> PStr ''a''],
        [''type'' \<mapsto> PStr ''implementation'', ''prompt'' \<mapsto> PStr ''boom'', ''name'' \<mapsto> PStr ''second''],
        [''type'' \<mapsto> PStr ''implementation'', ''prompt'' \<mapsto> PStr ''c'']],
       arg_parallel = Some True, arg_model_strategy = None \<rparr> empty_state)
   = Inr [TextContent
       (''# Custom Workflow Workflow Report\<newline>\<newline>''
     @ ''**Generated:** 2024-01-02 03:04:05\<newline>''
     @ ''**Total Steps:** 3\<newline>\<newline>''
     @ ''## Step 1: Task 1\<newline>\<newline>''
     @ ''reply to a\<newline>\<newline>''
     @ ''---\<newline>\<newline>''
     @ ''## Step 2: second\<newline>\<newline>''
     @ ''Error: Failed to execute with model gemini-flash: provider unavailable\<newline>\<newline>''
     @ ''---\<newline>\<newline>''
     @ ''## Step 3: Task 3\<newline>\<newline>''
     @ ''reply to c\<newline>\<newline>''
     @ ''---\<newline>\<newline>''
     @ ''## Workflow Summary\<newline>\<newline>''
     @ ''- **Workflow Type:** Custom Workflow\<newline>''
     @ ''- **Steps Completed:** 3\<newline>''
     @ ''- **Status:** Completed Successfully\<newline>\<newline>''
     @ ''## Recommendations\<newline>\<newline>''
     @ ''1. Review each step's output for quality and completeness\<newline>''
     @ ''2. Implement recommendations in order of priority\<newline>''
     @ ''3. Test changes thoroughly before deployment\<newline>''
     @ ''4. Monitor performance and user feedback\<newline>\<newline>'')]"
proof -
  have sequential: "fst (execute demo_env
     \<lparr> arg_workflow_type = ''custom'',
       arg_tasks =
       [[''type'' \<mapsto> PStr ''implementation'', ''prompt'' \<mapsto> PStr ''a''],
        [''type'' \<mapsto> PStr ''implementation'', ''prompt'' \<mapsto> PStr ''boom'', ''name'' \<mapsto> PStr ''second''],
        [''type'' \<mapsto> PStr ''implementation'', ''prompt'' \<mapsto> PStr ''c'']],
       arg_parallel = None, arg_model_strategy = None \<rparr> empty_state)
   = Inr [TextContent
       (''# Custom Workflow Workflow Report\<newline>\<newline>''
     @ ''**Generated:** 2024-01-02 03:04:05\<newline>''
     @ ''**Total Steps:** 3\<newline>\<newline>''
     @ ''## Step 1: Task\<newline>\<newline>''
     @ ''reply to a\<newline>\<newline>''
     @ ''---\<newline>\<newline>''
     @ ''## Step 2: second\<newline>\<newline>''
     @ ''Error: Failed to execute with model gemini-flash: provider unavailable\<newline>\<newline>''
     @ ''---\<newline>\<newline>''
     @ ''## Step 3: Task\<newline>\<newline>''
     @ ''reply to c\<newline>\<newline>''
     @ ''---\<newline>\<newline>''
     @ ''## Workflow Summary\<newline>\<newline>''
     @ ''- **Workflow Type:** Custom Workflow\<newline>''
     @ ''- **Steps Completed:** 3\<newline>''
     @ ''- **Status:** Completed Successfully\<newline>\<newline>''
     @ ''## Recommendations\<newline>\<newline>''
     @ ''1. Review each step's output for quality and completeness\<newline>''
     @ ''2. Implement recommendations in order of priority\<newline>''
     @ ''3. Test changes thoroughly before deployment\<newline>''
     @ ''4. Monitor performance and user feedback\<newline>\<newline>'')]"
    using custom_workflow_isolates_failures [where env = demo_env and par = "None"
       and strategy = None and s = empty_state and tasks =
       "[[''type'' \<mapsto> PStr ''implementation'', ''prompt'' \<mapsto> PStr ''a''],
        [''type'' \<mapsto> PStr ''implementation'', ''prompt'' \<mapsto> PStr ''boom'', ''name'' \<mapsto> PStr ''second''],
        [''type'' \<mapsto> PStr ''implementation'', ''prompt'' \<mapsto> PStr ''c'']]"]
    by (simp add: enumerate_eq_zip upt_rec [of 0] demo_single_task demo_single_task_named
          dict_get_def string_of_nat.simps demo_timestamp py_str_def)
  have parallel: "fst (execute demo_env
     \<lparr> arg_workflow_type = ''custom'',
       arg_tasks =
       [[''type'' \<mapsto> PStr ''implementation'', ''prompt'' \<mapsto> PStr ''a''],
        [''type'' \<mapsto> PStr ''implementation'', ''prompt'' \<mapsto> PStr ''boom'', ''name'' \<mapsto> PStr ''second''],
        [''type'' \<mapsto> PStr ''implementation'', ''prompt'' \<mapsto> PStr ''c'']],
       arg_parallel = Some True, arg_model_strategy = None \<rparr> empty_state)
   = Inr [TextContent
       (''# Custom Workflow Workflow Report\<newline>\<newline>''
     @ ''**Generated:** 2024-01-02 03:04:05\<newline>''
     @ ''**Total Steps:** 3\<newline>\<newline>''
     @ ''## Step 1: Task 1\<newline>\<newline>''
     @ ''reply to a\<newline>\<newline>''
     @ ''---\<newline>\<newline>''
     @ ''## Step 2: second\<newline>\<newline>''
     @ ''Error: Failed to execute with model gemini-flash: provider unavailable\<newline>\<newline>''
     @ ''---\<newline>\<newline>''
     @ ''## Step 3: Task 3\<newline>\<newline>''
     @ ''reply to c\<newline>\<newline>''
     @ ''---\<newline>\<newline>''
     @ ''## Workflow Summary\<newline>\<newline>''
     @ ''- **Workflow Type:** Custom Workflow\<newline>''
     @ ''- **Steps Completed:** 3\<newline>''
     @ ''- **Status:** Completed Successfully\<newline>\<newline>''
     @ ''## Recommendations\<newline>\<newline>''
     @ ''1. Review each step's output for quality and completeness\<newline>''
     @ ''2. Implement recommendations in order of priority\<newline>''
     @ ''3. Test changes thoroughly before deployment\<newline>''
     @ ''4. Monitor performance and user feedback\<newline>\<newline>'')]"
    using custom_workflow_isolates_failures [where env = demo_env and par = "Some True"
       and strategy = None and s = empty_state and tasks =
       "[[''type'' \<mapsto> PStr ''implementation'', ''prompt'' \<mapsto> PStr ''a''],
        [''type'' \<mapsto> PStr ''implementation'', ''prompt'' \<mapsto> PStr ''boom'', ''name'' \<mapsto> PStr ''second''],
        [''type'' \<mapsto> PStr ''implementation'', ''prompt'' \<mapsto> PStr ''c'']]"]
    by (simp add: enumerate_eq_zip upt_rec [of 0] demo_single_task demo_single_task_named
          dict_get_def string_of_nat.simps demo_timestamp py_str_def)
  from sequential parallel show ?thesis by simp
qed

end
